theory Spec2Isabelle
  imports Main "HOL-Library.Word"
begin

section \<open>The EBLB level codec of \<open>shantae_curse_eblb.py\<close>\<close>

text \<open>
  The module decodes a level file into a \<open>ShantaeCurseEblb\<close> object and encodes it back.
  Python values are modelled as follows.
  \<^item> \<open>bytes\<close> is a list of 8-bit words; an element read from it (\<open>entry[6]\<close>) is the
    word's unsigned value.
  \<^item> \<open>str\<close> is a \<open>string\<close>; a character whose code is 128 or more stands for a
    non-ASCII code point, the only distinction \<open>encode('ascii')\<close> makes.
  \<^item> \<open>int\<close> is \<open>int\<close>, \<open>bool\<close> is \<open>bool\<close>.
  \<^item> An exception is a value \<open>Inl e\<close> of a sum type; a loop that never ends is \<open>None\<close>.
  \<^item> The open file is the list of the bytes after the file position: \<open>read(n)\<close> takes
    \<open>n\<close> of them, a relative \<open>seek(n, 1)\<close> drops \<open>n\<close>.
\<close>

type_synonym byte = "8 word"

datatype error =
    ShantaeCurseEblbParsingError
  | ShantaeCurseEblbBadData
  | IndexError
  | ValueError
  | StructError
  | UnicodeEncodeError
  | UnicodeDecodeError
  | TypeError
  | KeyError

subsection \<open>Python built-ins the module uses\<close>

text \<open>\<open>xs[i]\<close>: a negative index counts from the end, an index out of range raises.\<close>

definition py_index :: "'a list \<Rightarrow> int \<Rightarrow> error + 'a" where
  "py_index xs i =
     (if 0 \<le> i \<and> i < int (length xs) then Inr (xs ! nat i)
      else if i < 0 \<and> - int (length xs) \<le> i then Inr (xs ! nat (int (length xs) + i))
      else Inl IndexError)"

text \<open>\<open>xs.index(x)\<close>: the first position of \<open>x\<close>, \<open>ValueError\<close> when absent.\<close>

fun list_index :: "'a list \<Rightarrow> 'a \<Rightarrow> error + int" where
  "list_index [] x = Inl ValueError"
| "list_index (y # ys) x =
     (if y = x then Inr 0
      else case list_index ys x of Inl e \<Rightarrow> Inl e | Inr i \<Rightarrow> Inr (i + 1))"

text \<open>\<open>s.encode('ascii')\<close> and \<open>b.decode('ascii')\<close>.\<close>

definition encode_ascii :: "string \<Rightarrow> error + byte list" where
  "encode_ascii s =
     (if list_all (\<lambda>c. (of_char c :: nat) < 128) s
      then Inr (map (\<lambda>c. word_of_nat (of_char c)) s)
      else Inl UnicodeEncodeError)"

definition decode_ascii :: "byte list \<Rightarrow> error + string" where
  "decode_ascii b =
     (if list_all (\<lambda>w. unat w < 128) b
      then Inr (map (\<lambda>w. char_of (unat w)) b)
      else Inl UnicodeDecodeError)"

text \<open>The generator \<open>string.encode('ascii') for string in strings\<close>, consumed in order.\<close>

fun encode_all :: "string list \<Rightarrow> error + byte list list" where
  "encode_all [] = Inr []"
| "encode_all (s # ss) =
     (case encode_ascii s of
        Inl e \<Rightarrow> Inl e
      | Inr b \<Rightarrow> (case encode_all ss of Inl e \<Rightarrow> Inl e | Inr bs \<Rightarrow> Inr (b # bs)))"

text \<open>\<open>b'\x00'.join(parts)\<close>.\<close>

fun join_nul :: "byte list list \<Rightarrow> byte list" where
  "join_nul [] = []"
| "join_nul [x] = x"
| "join_nul (x # y # ys) = x @ 0 # join_nul (y # ys)"

text \<open>\<open>bytes(ints)\<close>: every element must be in \<open>range(256)\<close>.\<close>

definition bytes_of_ints :: "int list \<Rightarrow> error + byte list" where
  "bytes_of_ints js =
     (if list_all (\<lambda>j. 0 \<le> j \<and> j < 256) js then Inr (map word_of_int js) else Inl ValueError)"

subsection \<open>The \<open>struct\<close> module, little-endian standard sizes\<close>

fun le_bytes :: "nat \<Rightarrow> int \<Rightarrow> byte list" where
  "le_bytes 0 v = []"
| "le_bytes (Suc n) v = word_of_int (v mod 256) # le_bytes n (v div 256)"

fun le_uint :: "byte list \<Rightarrow> int" where
  "le_uint [] = 0"
| "le_uint (b # bs) = uint b + 256 * le_uint bs"

definition le_sint :: "byte list \<Rightarrow> int" where
  "le_sint bs =
     (let u = le_uint bs; m = 256 ^ length bs in if m \<le> 2 * u then u - m else u)"

text \<open>Formats \<open>B\<close>, \<open>H\<close>, \<open>I\<close> (1, 2, 4 bytes, unsigned) and \<open>h\<close>, \<open>i\<close> (2, 4 bytes, signed):
  a value out of the format's range raises \<open>struct.error\<close>. Format \<open>?\<close> packs a bool.\<close>

definition pack_unsigned :: "nat \<Rightarrow> int \<Rightarrow> error + byte list" where
  "pack_unsigned n v = (if 0 \<le> v \<and> v < 256 ^ n then Inr (le_bytes n v) else Inl StructError)"

definition pack_signed :: "nat \<Rightarrow> int \<Rightarrow> error + byte list" where
  "pack_signed n v =
     (if - (256 ^ n div 2) \<le> v \<and> v < 256 ^ n div 2
      then Inr (le_bytes n (v mod 256 ^ n)) else Inl StructError)"

definition pack_bool :: "bool \<Rightarrow> error + byte list" where
  "pack_bool b = Inr [if b then 1 else 0]"

text \<open>\<open>struct.pack\<close> packs its arguments from left to right and stops at the first error.\<close>

fun pack_fields :: "(error + byte list) list \<Rightarrow> error + byte list" where
  "pack_fields [] = Inr []"
| "pack_fields (Inl e # fs) = Inl e"
| "pack_fields (Inr b # fs) =
     (case pack_fields fs of Inl e \<Rightarrow> Inl e | Inr bs \<Rightarrow> Inr (b @ bs))"

text \<open>The bytes of a field at a fixed offset of a record.\<close>

definition bytes_at :: "nat \<Rightarrow> nat \<Rightarrow> 'a list \<Rightarrow> 'a list" where
  "bytes_at off n xs = take n (drop off xs)"

subsection \<open>\<open>get_padding\<close>\<close>

definition get_padding :: "string list \<Rightarrow> error + byte list" where
  "get_padding strings =
     (case encode_all strings of
        Inl e \<Rightarrow> Inl e
      | Inr parts \<Rightarrow>
          (let new_bytes = join_nul parts @ [0];
               pad_amnt = length new_bytes mod 4
           in if pad_amnt \<noteq> 0 then Inr (replicate (4 - pad_amnt) 0) else Inr []))"

subsection \<open>\<open>EntranceAndOrExit\<close>\<close>

record EntranceAndOrExit =
  x1 :: int
  y1 :: int
  x2 :: int
  y2 :: int
  entrance_id :: int
  exit_type_id :: int
  exit_location_id :: int
  entrance_type_id :: int
  exit_scene_name :: string

text \<open>\<open>bbox(image_size = None)\<close>; \<open>image_size[1]\<close> is the second component.\<close>

definition EntranceAndOrExit_bbox ::
  "EntranceAndOrExit \<Rightarrow> (int \<times> int) option \<Rightarrow> (int \<times> int) \<times> (int \<times> int)" where
  "EntranceAndOrExit_bbox self image_size =
     (case image_size of
        None \<Rightarrow> ((x1 self, y2 self), (x2 self, y2 self))
      | Some sz \<Rightarrow> ((x1 self, snd sz - y1 self), (x2 self, snd sz - y2 self)))"

subsection \<open>\<open>EblbObject\<close>\<close>

record EblbObject =
  underworld_type :: string
  x_location :: int
  y_location :: int
  unknown_bool6 :: bool
  unknown_bool7 :: bool
  unknown_char8 :: int
  unknown_char9 :: int
  unknown_chara :: int
  unknown_charb :: int
  unknown_shortc :: int
  unknown_inte :: int

text \<open>\<open>from_bytes\<close>: the four checks, then \<open>struct.unpack('<H2h2?4BhIBB', entry)\<close> and
  the lookup \<open>underworld_types[underworld_type_index - 1]\<close>.\<close>

definition EblbObject_from_bytes :: "byte list \<Rightarrow> string list \<Rightarrow> error + EblbObject" where
  "EblbObject_from_bytes entry underworld_types =
     (if length entry \<noteq> 20 then Inl ShantaeCurseEblbParsingError
      else if uint (entry ! 6) \<notin> {0, 1} then Inl ShantaeCurseEblbParsingError
      else if uint (entry ! 7) \<notin> {0, 1} then Inl ShantaeCurseEblbParsingError
      else if uint (entry ! 18) + uint (entry ! 19) \<noteq> 0 then Inl ShantaeCurseEblbBadData
      else
        (let underworld_type_index = le_uint (bytes_at 0 2 entry)
         in case py_index underworld_types (underworld_type_index - 1) of
              Inl e \<Rightarrow> Inl e
            | Inr t \<Rightarrow>
                Inr \<lparr>underworld_type = t,
                     x_location = le_sint (bytes_at 2 2 entry),
                     y_location = le_sint (bytes_at 4 2 entry),
                     unknown_bool6 = (entry ! 6 \<noteq> 0),
                     unknown_bool7 = (entry ! 7 \<noteq> 0),
                     unknown_char8 = le_uint (bytes_at 8 1 entry),
                     unknown_char9 = le_uint (bytes_at 9 1 entry),
                     unknown_chara = le_uint (bytes_at 10 1 entry),
                     unknown_charb = le_uint (bytes_at 11 1 entry),
                     unknown_shortc = le_sint (bytes_at 12 2 entry),
                     unknown_inte = le_uint (bytes_at 14 4 entry)\<rparr>))"

text \<open>\<open>to_bytes\<close>: \<open>underworld_types.index\<close> first, then \<open>struct.pack\<close> of the same format.\<close>

definition EblbObject_to_bytes :: "EblbObject \<Rightarrow> string list \<Rightarrow> error + byte list" where
  "EblbObject_to_bytes self underworld_types =
     (case list_index underworld_types (underworld_type self) of
        Inl e \<Rightarrow> Inl e
      | Inr i \<Rightarrow>
          pack_fields
            [pack_unsigned 2 (i + 1),
             pack_signed 2 (x_location self),
             pack_signed 2 (y_location self),
             pack_bool (unknown_bool6 self),
             pack_bool (unknown_bool7 self),
             pack_unsigned 1 (unknown_char8 self),
             pack_unsigned 1 (unknown_char9 self),
             pack_unsigned 1 (unknown_chara self),
             pack_unsigned 1 (unknown_charb self),
             pack_signed 2 (unknown_shortc self),
             pack_unsigned 4 (unknown_inte self),
             pack_unsigned 1 0,
             pack_unsigned 1 0])"

subsection \<open>\<open>EntranceAndOrExit\<close> records\<close>

text \<open>\<open>struct.unpack('<5iHIH', entry)\<close> raises \<open>struct.error\<close> unless \<open>entry\<close> has 28 bytes.\<close>

definition EntranceAndOrExit_from_bytes :: "byte list \<Rightarrow> string \<Rightarrow> error + EntranceAndOrExit" where
  "EntranceAndOrExit_from_bytes entry exit_name =
     (if length entry \<noteq> 28 then Inl StructError
      else Inr \<lparr>x1 = le_sint (bytes_at 0 4 entry),
                y1 = le_sint (bytes_at 4 4 entry),
                x2 = le_sint (bytes_at 8 4 entry),
                y2 = le_sint (bytes_at 12 4 entry),
                entrance_id = le_sint (bytes_at 16 4 entry),
                exit_type_id = le_uint (bytes_at 20 2 entry),
                exit_location_id = le_uint (bytes_at 22 4 entry),
                entrance_type_id = le_uint (bytes_at 26 2 entry),
                exit_scene_name = exit_name\<rparr>)"

definition EntranceAndOrExit_to_bytes :: "EntranceAndOrExit \<Rightarrow> error + byte list" where
  "EntranceAndOrExit_to_bytes self =
     (case pack_fields
             [pack_signed 4 (x1 self),
              pack_signed 4 (y1 self),
              pack_signed 4 (x2 self),
              pack_signed 4 (y2 self),
              pack_signed 4 (entrance_id self),
              pack_unsigned 2 (exit_type_id self),
              pack_unsigned 4 (exit_location_id self),
              pack_unsigned 2 (entrance_type_id self)] of
        Inl e \<Rightarrow> Inl e
      | Inr head \<Rightarrow>
          (case encode_ascii (exit_scene_name self) of
             Inl e \<Rightarrow> Inl e
           | Inr name \<Rightarrow>
               (case get_padding [exit_scene_name self] of
                  Inl e \<Rightarrow> Inl e
                | Inr pad \<Rightarrow> Inr (head @ name @ [0] @ pad))))"

subsection \<open>\<open>ShantaeCurseEblb\<close>\<close>

record ShantaeCurseEblb =
  objects :: "EblbObject list"
  doors :: "EntranceAndOrExit list"
  camera_x1 :: int
  camera_y1 :: int
  camera_x2 :: int
  camera_y2 :: int
  tiles :: "int list list"

text \<open>The class constant \<open>UNDERWORLD_TYPES_TYP\<close>, and what
  \<open>UNDERWORLD_TYPES_TYP.removesuffix(b'\x00').decode('ascii')\<close> evaluates to.\<close>

definition UNDERWORLD_TYPES_TYP_name :: string where
  "UNDERWORLD_TYPES_TYP_name = ''UNDERWORLD_TYPES_TYP''"

definition UNDERWORLD_TYPES_TYP :: "byte list" where
  "UNDERWORLD_TYPES_TYP = map (\<lambda>c. word_of_nat (of_char c)) UNDERWORLD_TYPES_TYP_name @ [0]"


text \<open>\<open>check_eblb\<close>: the loop over the rows; \<open>self.tiles[0]\<close> is read inside the loop.\<close>

fun check_rows :: "int list list \<Rightarrow> int list list \<Rightarrow> error + unit" where
  "check_rows all_tiles [] = Inr ()"
| "check_rows all_tiles (row # rows) =
     (case py_index all_tiles 0 of
        Inl e \<Rightarrow> Inl e
      | Inr row0 \<Rightarrow>
          if length row \<noteq> length row0 then Inl ShantaeCurseEblbBadData
          else check_rows all_tiles rows)"

definition check_eblb :: "ShantaeCurseEblb \<Rightarrow> error + unit" where
  "check_eblb self = check_rows (tiles self) (tiles self)"

subsection \<open>Encoding: \<open>__bytes__\<close>\<close>

text \<open>
  \<open>list({entry.underworld_type for entry in self.objects})\<close> lists the distinct type names
  in the iteration order of a set, which the language leaves open. The encoder therefore
  takes that list as its first argument, and \<open>set_listing\<close> says what Python guarantees
  of it.
\<close>

definition set_listing :: "string list \<Rightarrow> ShantaeCurseEblb \<Rightarrow> bool" where
  "set_listing underworld_types self \<longleftrightarrow>
     distinct underworld_types \<and>
     set underworld_types = set (map underworld_type (objects self))"

fun objects_to_bytes :: "EblbObject list \<Rightarrow> string list \<Rightarrow> error + byte list" where
  "objects_to_bytes [] underworld_types = Inr []"
| "objects_to_bytes (entry # entries) underworld_types =
     (case EblbObject_to_bytes entry underworld_types of
        Inl e \<Rightarrow> Inl e
      | Inr b \<Rightarrow>
          (case objects_to_bytes entries underworld_types of
             Inl e \<Rightarrow> Inl e
           | Inr bs \<Rightarrow> Inr (b @ bs)))"

fun doors_to_bytes :: "EntranceAndOrExit list \<Rightarrow> error + byte list" where
  "doors_to_bytes [] = Inr []"
| "doors_to_bytes (door # ds) =
     (case EntranceAndOrExit_to_bytes door of
        Inl e \<Rightarrow> Inl e
      | Inr b \<Rightarrow> (case doors_to_bytes ds of Inl e \<Rightarrow> Inl e | Inr bs \<Rightarrow> Inr (b @ bs)))"

definition ShantaeCurseEblb_bytes :: "string list \<Rightarrow> ShantaeCurseEblb \<Rightarrow> error + byte list" where
  "ShantaeCurseEblb_bytes underworld_types self =
     (case check_eblb self of
        Inl e \<Rightarrow> Inl e
      | Inr _ \<Rightarrow>
     (case py_index (tiles self) 0 of
        Inl e \<Rightarrow> Inl e
      | Inr row0 \<Rightarrow>
     (case pack_fields
             [pack_unsigned 2 (int (length (objects self))),
              pack_unsigned 2 1,
              pack_unsigned 2 (int (length (doors self))),
              pack_unsigned 2 (int (length underworld_types)),
              pack_unsigned 4 (int (length row0)),
              pack_unsigned 4 (int (length (tiles self)))] of
        Inl e \<Rightarrow> Inl e
      | Inr header \<Rightarrow>
     (case encode_all underworld_types of
        Inl e \<Rightarrow> Inl e
      | Inr names \<Rightarrow>
     (case get_padding (UNDERWORLD_TYPES_TYP_name # underworld_types) of
        Inl e \<Rightarrow> Inl e
      | Inr pad \<Rightarrow>
     (case objects_to_bytes (objects self) underworld_types of
        Inl e \<Rightarrow> Inl e
      | Inr object_bytes \<Rightarrow>
     (case pack_fields
             [pack_signed 4 (camera_x1 self),
              pack_signed 4 (camera_y1 self),
              pack_signed 4 (camera_x2 self),
              pack_signed 4 (camera_y2 self),
              pack_signed 4 0] of
        Inl e \<Rightarrow> Inl e
      | Inr camera \<Rightarrow>
     (case doors_to_bytes (doors self) of
        Inl e \<Rightarrow> Inl e
      | Inr door_bytes \<Rightarrow>
     (case bytes_of_ints (concat (tiles self)) of
        Inl e \<Rightarrow> Inl e
      | Inr tile_bytes \<Rightarrow>
          Inr (header @ UNDERWORLD_TYPES_TYP @ join_nul names @ [0] @ pad
               @ object_bytes @ camera @ door_bytes @ tile_bytes))))))))))"

subsection \<open>Decoding: \<open>from_eblb_file\<close>\<close>

text \<open>
  \<open>b''.join(iter(lambda: eblb_file.read(1), b'\x00'))\<close> reads one byte at a time until the
  read returns \<open>b'\x00'\<close>. At the end of the file \<open>read(1)\<close> returns \<open>b''\<close>, which is not
  the sentinel, so the loop goes on for ever: the result is \<open>None\<close>.
\<close>

partial_function (option) read_until_nul ::
  "byte list \<Rightarrow> byte list \<Rightarrow> (byte list \<times> byte list) option" where
  "read_until_nul acc f =
     (let chunk = take 1 f
      in if chunk = [0] then Some (acc, drop 1 f)
         else read_until_nul (acc @ chunk) (drop 1 f))"

declare read_until_nul.simps [code]

text \<open>\<open>struct.unpack('<4H2I', data)\<close> and \<open>struct.unpack('<5i', data)\<close>.\<close>

definition unpack_header :: "byte list \<Rightarrow> error + (int \<times> int \<times> int \<times> int \<times> int \<times> int)" where
  "unpack_header data =
     (if length data \<noteq> 16 then Inl StructError
      else Inr (le_uint (bytes_at 0 2 data), le_uint (bytes_at 2 2 data), le_uint (bytes_at 4 2 data),
                le_uint (bytes_at 6 2 data), le_uint (bytes_at 8 4 data), le_uint (bytes_at 12 4 data)))"

definition unpack_camera :: "byte list \<Rightarrow> error + (int \<times> int \<times> int \<times> int \<times> int)" where
  "unpack_camera data =
     (if length data \<noteq> 20 then Inl StructError
      else Inr (le_sint (bytes_at 0 4 data), le_sint (bytes_at 4 4 data), le_sint (bytes_at 8 4 data),
                le_sint (bytes_at 12 4 data), le_sint (bytes_at 16 4 data)))"

text \<open>The loop that fills \<open>underworld_types\<close>.\<close>

fun read_underworld_types ::
  "nat \<Rightarrow> byte list \<Rightarrow> (error + string list \<times> byte list) option" where
  "read_underworld_types 0 f = Some (Inr ([], f))"
| "read_underworld_types (Suc n) f =
     (case read_until_nul [] f of
        None \<Rightarrow> None
      | Some (new_string, f') \<Rightarrow>
          (case decode_ascii new_string of
             Inl e \<Rightarrow> Some (Inl e)
           | Inr s \<Rightarrow>
               (case read_underworld_types n f' of
                  None \<Rightarrow> None
                | Some (Inl e) \<Rightarrow> Some (Inl e)
                | Some (Inr (ss, f'')) \<Rightarrow> Some (Inr (s # ss, f'')))))"

text \<open>The loop that fills \<open>self_objects\<close>, 20 bytes a record.\<close>

fun read_objects ::
  "nat \<Rightarrow> string list \<Rightarrow> byte list \<Rightarrow> error + EblbObject list \<times> byte list" where
  "read_objects 0 underworld_types f = Inr ([], f)"
| "read_objects (Suc n) underworld_types f =
     (case EblbObject_from_bytes (take 20 f) underworld_types of
        Inl e \<Rightarrow> Inl e
      | Inr obj \<Rightarrow>
          (case read_objects n underworld_types (drop 20 f) of
             Inl e \<Rightarrow> Inl e
           | Inr (objs, f') \<Rightarrow> Inr (obj # objs, f')))"

text \<open>The loop that fills \<open>self_doors\<close>: 28 bytes, the name up to its terminator, the
  name's padding skipped, and only then \<open>EntranceAndOrExit.from_bytes\<close>.\<close>

fun read_doors ::
  "nat \<Rightarrow> byte list \<Rightarrow> (error + EntranceAndOrExit list \<times> byte list) option" where
  "read_doors 0 f = Some (Inr ([], f))"
| "read_doors (Suc n) f =
     (let door_bytes = take 28 f
      in case read_until_nul [] (drop 28 f) of
           None \<Rightarrow> None
         | Some (name_bytes, f1) \<Rightarrow>
             (case decode_ascii name_bytes of
                Inl e \<Rightarrow> Some (Inl e)
              | Inr scene_name \<Rightarrow>
                  (case get_padding [scene_name] of
                     Inl e \<Rightarrow> Some (Inl e)
                   | Inr pad \<Rightarrow>
                       (case EntranceAndOrExit_from_bytes door_bytes scene_name of
                          Inl e \<Rightarrow> Some (Inl e)
                        | Inr door \<Rightarrow>
                            (case read_doors n (drop (length pad) f1) of
                               None \<Rightarrow> None
                             | Some (Inl e) \<Rightarrow> Some (Inl e)
                             | Some (Inr (ds, f2)) \<Rightarrow> Some (Inr (door # ds, f2)))))))"

text \<open>\<open>[list(self_tiles[i:i+tiles_x]) for i in range(0, len(self_tiles), tiles_x)]\<close> for a
  positive step; \<open>range\<close> raises \<open>ValueError\<close> when the step is 0, which \<open>read_tiles\<close>
  decides before it calls \<open>chunks\<close>.\<close>

function chunks :: "nat \<Rightarrow> 'a list \<Rightarrow> 'a list list" where
  "chunks w xs = (if xs = [] \<or> w = 0 then [] else take w xs # chunks w (drop w xs))"
  by pat_completeness auto
termination
  by (relation "measure (\<lambda>(w, xs). length xs)") auto

definition read_tiles :: "int \<Rightarrow> int \<Rightarrow> byte list \<Rightarrow> error + int list list" where
  "read_tiles tiles_x tiles_y self_tiles =
     (if int (length self_tiles) \<noteq> tiles_x * tiles_y then Inl ShantaeCurseEblbBadData
      else if tiles_x = 0 then Inl ValueError
      else Inr (map (map uint) (chunks (nat tiles_x) self_tiles)))"

definition from_eblb_file :: "byte list \<Rightarrow> (error + ShantaeCurseEblb) option" where
  "from_eblb_file eblb_file =
     (case unpack_header (take 16 eblb_file) of
        Inl e \<Rightarrow> Some (Inl e)
      | Inr (objects_count, unknown_short, doors_count, underworld_types_count,
             tiles_x, tiles_y) \<Rightarrow>
     if unknown_short \<noteq> 1 then Some (Inl ShantaeCurseEblbParsingError)
     else if take 21 (drop 16 eblb_file) \<noteq> UNDERWORLD_TYPES_TYP
       then Some (Inl ShantaeCurseEblbParsingError)
     else
     (case read_underworld_types (nat underworld_types_count) (drop 37 eblb_file) of
        None \<Rightarrow> None
      | Some (Inl e) \<Rightarrow> Some (Inl e)
      | Some (Inr (underworld_types, f1)) \<Rightarrow>
     (case get_padding (UNDERWORLD_TYPES_TYP_name # underworld_types) of
        Inl e \<Rightarrow> Some (Inl e)
      | Inr pad \<Rightarrow>
     (case read_objects (nat objects_count) underworld_types (drop (length pad) f1) of
        Inl e \<Rightarrow> Some (Inl e)
      | Inr (self_objects, f2) \<Rightarrow>
     (case unpack_camera (take 20 f2) of
        Inl e \<Rightarrow> Some (Inl e)
      | Inr (self_camera_x1, self_camera_y1, self_camera_x2, self_camera_y2,
             unknown_int_should_be_0) \<Rightarrow>
     if unknown_int_should_be_0 \<noteq> 0 then Some (Inl ShantaeCurseEblbParsingError)
     else
     (case read_doors (nat doors_count) (drop 20 f2) of
        None \<Rightarrow> None
      | Some (Inl e) \<Rightarrow> Some (Inl e)
      | Some (Inr (self_doors, self_tiles)) \<Rightarrow>
     (case read_tiles tiles_x tiles_y self_tiles of
        Inl e \<Rightarrow> Some (Inl e)
      | Inr tile_rows \<Rightarrow>
          Some (Inr \<lparr>objects = self_objects,
                     doors = self_doors,
                     camera_x1 = self_camera_x1,
                     camera_y1 = self_camera_y1,
                     camera_x2 = self_camera_x2,
                     camera_y2 = self_camera_y2,
                     tiles = tile_rows\<rparr>))))))))"

subsection \<open>The structured description: \<open>to_dict\<close> and \<open>from_dict\<close>\<close>

text \<open>
  The description is a dict of primitive values, lists and dicts. A dict is the list of its
  items in insertion order. The model's fields are typed, so building an object from a
  description whose value has another type is \<open>TypeError\<close> here (Python would store the
  value unchecked).
\<close>

datatype json =
    JInt int
  | JBool bool
  | JStr string
  | JList "json list"
  | JDict "(string \<times> json) list"

text \<open>\<open>x._asdict()\<close> for the two named tuples.\<close>

definition EblbObject_asdict :: "EblbObject \<Rightarrow> json" where
  "EblbObject_asdict x =
     JDict [(''underworld_type'', JStr (underworld_type x)),
            (''x_location'', JInt (x_location x)),
            (''y_location'', JInt (y_location x)),
            (''unknown_bool6'', JBool (unknown_bool6 x)),
            (''unknown_bool7'', JBool (unknown_bool7 x)),
            (''unknown_char8'', JInt (unknown_char8 x)),
            (''unknown_char9'', JInt (unknown_char9 x)),
            (''unknown_chara'', JInt (unknown_chara x)),
            (''unknown_charb'', JInt (unknown_charb x)),
            (''unknown_shortc'', JInt (unknown_shortc x)),
            (''unknown_inte'', JInt (unknown_inte x))]"

definition EntranceAndOrExit_asdict :: "EntranceAndOrExit \<Rightarrow> json" where
  "EntranceAndOrExit_asdict x =
     JDict [(''x1'', JInt (x1 x)),
            (''y1'', JInt (y1 x)),
            (''x2'', JInt (x2 x)),
            (''y2'', JInt (y2 x)),
            (''entrance_id'', JInt (entrance_id x)),
            (''exit_type_id'', JInt (exit_type_id x)),
            (''exit_location_id'', JInt (exit_location_id x)),
            (''entrance_type_id'', JInt (entrance_type_id x)),
            (''exit_scene_name'', JStr (exit_scene_name x))]"

text \<open>\<open>to_dict\<close>: \<open>asdict(self)\<close> copies the fields in their order, then the two lists are
  replaced by the lists of the items' dicts.\<close>

definition to_dict :: "ShantaeCurseEblb \<Rightarrow> json" where
  "to_dict self =
     JDict [(''objects'', JList (map EblbObject_asdict (objects self))),
            (''doors'', JList (map EntranceAndOrExit_asdict (doors self))),
            (''camera_x1'', JInt (camera_x1 self)),
            (''camera_y1'', JInt (camera_y1 self)),
            (''camera_x2'', JInt (camera_x2 self)),
            (''camera_y2'', JInt (camera_y2 self)),
            (''tiles'', JList (map (\<lambda>row. JList (map JInt row)) (tiles self)))]"

text \<open>\<open>cls(**x)\<close>: the keys of \<open>x\<close> must be exactly the field names.\<close>

definition EblbObject_of_kwargs :: "json \<Rightarrow> error + EblbObject" where
  "EblbObject_of_kwargs x =
     (case x of
        JDict kv \<Rightarrow>
          if set (map fst kv) \<noteq>
             set [''underworld_type'', ''x_location'', ''y_location'', ''unknown_bool6'',
                  ''unknown_bool7'', ''unknown_char8'', ''unknown_char9'', ''unknown_chara'',
                  ''unknown_charb'', ''unknown_shortc'', ''unknown_inte'']
          then Inl TypeError
          else
            (case (map_of kv ''underworld_type'', map_of kv ''x_location'',
                   map_of kv ''y_location'', map_of kv ''unknown_bool6'',
                   map_of kv ''unknown_bool7'', map_of kv ''unknown_char8'',
                   map_of kv ''unknown_char9'', map_of kv ''unknown_chara'',
                   map_of kv ''unknown_charb'', map_of kv ''unknown_shortc'',
                   map_of kv ''unknown_inte'') of
               (Some (JStr t), Some (JInt x), Some (JInt y), Some (JBool b6), Some (JBool b7),
                Some (JInt c8), Some (JInt c9), Some (JInt ca), Some (JInt cb),
                Some (JInt sc), Some (JInt ie)) \<Rightarrow>
                 Inr \<lparr>underworld_type = t, x_location = x, y_location = y,
                      unknown_bool6 = b6, unknown_bool7 = b7, unknown_char8 = c8,
                      unknown_char9 = c9, unknown_chara = ca, unknown_charb = cb,
                      unknown_shortc = sc, unknown_inte = ie\<rparr>
             | _ \<Rightarrow> Inl TypeError)
      | _ \<Rightarrow> Inl TypeError)"

definition EntranceAndOrExit_of_kwargs :: "json \<Rightarrow> error + EntranceAndOrExit" where
  "EntranceAndOrExit_of_kwargs x =
     (case x of
        JDict kv \<Rightarrow>
          if set (map fst kv) \<noteq>
             set [''x1'', ''y1'', ''x2'', ''y2'', ''entrance_id'', ''exit_type_id'',
                  ''exit_location_id'', ''entrance_type_id'', ''exit_scene_name'']
          then Inl TypeError
          else
            (case (map_of kv ''x1'', map_of kv ''y1'', map_of kv ''x2'', map_of kv ''y2'',
                   map_of kv ''entrance_id'', map_of kv ''exit_type_id'',
                   map_of kv ''exit_location_id'', map_of kv ''entrance_type_id'',
                   map_of kv ''exit_scene_name'') of
               (Some (JInt a1), Some (JInt b1), Some (JInt a2), Some (JInt b2), Some (JInt ei),
                Some (JInt xt), Some (JInt xl), Some (JInt et), Some (JStr nm)) \<Rightarrow>
                 Inr \<lparr>x1 = a1, y1 = b1, x2 = a2, y2 = b2, entrance_id = ei,
                      exit_type_id = xt, exit_location_id = xl, entrance_type_id = et,
                      exit_scene_name = nm\<rparr>
             | _ \<Rightarrow> Inl TypeError)
      | _ \<Rightarrow> Inl TypeError)"

text \<open>A list comprehension over a description's list, stopping at the first error.\<close>

fun map_items :: "('a \<Rightarrow> error + 'b) \<Rightarrow> 'a list \<Rightarrow> error + 'b list" where
  "map_items g [] = Inr []"
| "map_items g (x # xs) =
     (case g x of
        Inl e \<Rightarrow> Inl e
      | Inr y \<Rightarrow> (case map_items g xs of Inl e \<Rightarrow> Inl e | Inr ys \<Rightarrow> Inr (y # ys)))"

definition int_of_json :: "json \<Rightarrow> error + int" where
  "int_of_json j = (case j of JInt i \<Rightarrow> Inr i | _ \<Rightarrow> Inl TypeError)"

definition row_of_json :: "json \<Rightarrow> error + int list" where
  "row_of_json j = (case j of JList js \<Rightarrow> map_items int_of_json js | _ \<Rightarrow> Inl TypeError)"

text \<open>What a \<open>for\<close> loop over a description value visits: the items of a list, the keys
  of a dict, the characters of a string; a number or a bool is not iterable.\<close>

definition json_iter :: "json \<Rightarrow> error + json list" where
  "json_iter j =
     (case j of
        JList js \<Rightarrow> Inr js
      | JDict kv \<Rightarrow> Inr (map (\<lambda>p. JStr (fst p)) kv)
      | JStr s \<Rightarrow> Inr (map (\<lambda>c. JStr [c]) s)
      | _ \<Rightarrow> Inl TypeError)"

text \<open>\<open>from_dict\<close>: \<open>json_dict['objects']\<close> and \<open>json_dict['doors']\<close> are read first
  (\<open>KeyError\<close> when absent) and rebuilt item by item, then \<open>cls(**json_dict)\<close> wants exactly
  the seven fields.\<close>

definition from_dict :: "json \<Rightarrow> error + ShantaeCurseEblb" where
  "from_dict json_dict =
     (case json_dict of
        JDict kv \<Rightarrow>
          (case map_of kv ''objects'' of
             None \<Rightarrow> Inl KeyError
           | Some os \<Rightarrow>
          (case json_iter os of
             Inl e \<Rightarrow> Inl e
           | Inr object_items \<Rightarrow>
          (case map_items EblbObject_of_kwargs object_items of
             Inl e \<Rightarrow> Inl e
           | Inr new_objects \<Rightarrow>
          (case map_of kv ''doors'' of
             None \<Rightarrow> Inl KeyError
           | Some ds \<Rightarrow>
          (case json_iter ds of
             Inl e \<Rightarrow> Inl e
           | Inr door_items \<Rightarrow>
          (case map_items EntranceAndOrExit_of_kwargs door_items of
             Inl e \<Rightarrow> Inl e
           | Inr new_doors \<Rightarrow>
               if set (map fst kv) \<noteq>
                  set [''objects'', ''doors'', ''camera_x1'', ''camera_y1'',
                       ''camera_x2'', ''camera_y2'', ''tiles'']
               then Inl TypeError
               else
                 (case (map_of kv ''camera_x1'', map_of kv ''camera_y1'',
                        map_of kv ''camera_x2'', map_of kv ''camera_y2'',
                        map_of kv ''tiles'') of
                    (Some (JInt cx1), Some (JInt cy1), Some (JInt cx2),
                     Some (JInt cy2), Some (JList rows)) \<Rightarrow>
                      (case map_items row_of_json rows of
                         Inl e \<Rightarrow> Inl e
                       | Inr new_tiles \<Rightarrow>
                           Inr \<lparr>objects = new_objects, doors = new_doors,
                                camera_x1 = cx1, camera_y1 = cy1,
                                camera_x2 = cx2, camera_y2 = cy2,
                                tiles = new_tiles\<rparr>)
                  | _ \<Rightarrow> Inl TypeError)))))))
      | _ \<Rightarrow> Inl TypeError)"

subsection \<open>The Levels the file format can hold\<close>

text \<open>
  The ranges of the \<open>struct\<close> formats, the strings that survive a null-terminated ASCII
  encoding, and the Levels made of them: \<open>wire_level\<close> asks for a grid with at least one
  row and one column whose rows have one length, for counts and fields within the ranges
  of their formats, for names that are ASCII without a null, and for tile ids within a
  byte. A Level may have no object and no door.
\<close>

definition fits_unsigned :: "nat \<Rightarrow> int \<Rightarrow> bool" where
  "fits_unsigned n v \<longleftrightarrow> 0 \<le> v \<and> v < 256 ^ n"

definition fits_signed :: "nat \<Rightarrow> int \<Rightarrow> bool" where
  "fits_signed n v \<longleftrightarrow> - (256 ^ n div 2) \<le> v \<and> v < 256 ^ n div 2"

definition c_string :: "string \<Rightarrow> bool" where
  "c_string s \<longleftrightarrow> list_all (\<lambda>c. (of_char c :: nat) < 128 \<and> (of_char c :: nat) \<noteq> 0) s"

definition wire_object :: "EblbObject \<Rightarrow> bool" where
  "wire_object x \<longleftrightarrow>
     c_string (underworld_type x) \<and>
     fits_signed 2 (x_location x) \<and> fits_signed 2 (y_location x) \<and>
     fits_unsigned 1 (unknown_char8 x) \<and> fits_unsigned 1 (unknown_char9 x) \<and>
     fits_unsigned 1 (unknown_chara x) \<and> fits_unsigned 1 (unknown_charb x) \<and>
     fits_signed 2 (unknown_shortc x) \<and> fits_unsigned 4 (unknown_inte x)"

definition wire_door :: "EntranceAndOrExit \<Rightarrow> bool" where
  "wire_door d \<longleftrightarrow>
     fits_signed 4 (x1 d) \<and> fits_signed 4 (y1 d) \<and> fits_signed 4 (x2 d) \<and>
     fits_signed 4 (y2 d) \<and> fits_signed 4 (entrance_id d) \<and>
     fits_unsigned 2 (exit_type_id d) \<and> fits_unsigned 4 (exit_location_id d) \<and>
     fits_unsigned 2 (entrance_type_id d) \<and> c_string (exit_scene_name d)"

definition wire_level :: "ShantaeCurseEblb \<Rightarrow> bool" where
  "wire_level self \<longleftrightarrow>
     fits_unsigned 2 (int (length (objects self))) \<and>
     fits_unsigned 2 (int (length (doors self))) \<and>
     list_all wire_object (objects self) \<and>
     list_all wire_door (doors self) \<and>
     fits_signed 4 (camera_x1 self) \<and> fits_signed 4 (camera_y1 self) \<and>
     fits_signed 4 (camera_x2 self) \<and> fits_signed 4 (camera_y2 self) \<and>
     tiles self \<noteq> [] \<and> hd (tiles self) \<noteq> [] \<and>
     list_all (\<lambda>row. length row = length (hd (tiles self))) (tiles self) \<and>
     fits_unsigned 4 (int (length (hd (tiles self)))) \<and>
     fits_unsigned 4 (int (length (tiles self))) \<and>
     list_all (list_all (\<lambda>j. 0 \<le> j \<and> j < 256)) (tiles self)"

subsection \<open>The synthetic buffer of the end-to-end test\<close>

text \<open>Header (0 objects, sentinel 1, 0 doors, 1 type, 2 by 2 tiles), the magic string, the
  table string \<open>"A"\<close>, one byte of table padding, the camera block (0, 0, 10, 10, 0) and the
  four tile bytes.\<close>

definition synthetic_buffer :: "byte list" where
  "synthetic_buffer =
     [0,0, 1,0, 0,0, 1,0, 2,0,0,0, 2,0,0,0] @ UNDERWORLD_TYPES_TYP @ [65, 0] @ [0]
     @ [0,0,0,0, 0,0,0,0, 10,0,0,0, 10,0,0,0, 0,0,0,0] @ [1, 2, 3, 4]"

subsection \<open>An example Level\<close>

text \<open>One object of the given type name, one door, a camera rectangle and a grid of two
  rows of three tiles.\<close>

definition example_level :: "string \<Rightarrow> ShantaeCurseEblb" where
  "example_level type_name =
     \<lparr>objects =
        [\<lparr>underworld_type = type_name, x_location = - 16, y_location = 288,
          unknown_bool6 = False, unknown_bool7 = True, unknown_char8 = 0,
          unknown_char9 = 255, unknown_chara = 7, unknown_charb = 1,
          unknown_shortc = - 2, unknown_inte = 4000000000\<rparr>],
      doors =
        [\<lparr>x1 = 10, y1 = 20, x2 = 30, y2 = 40, entrance_id = 50, exit_type_id = 2,
          exit_location_id = 70000, entrance_type_id = 3, exit_scene_name = ''IB_04''\<rparr>],
      camera_x1 = 0, camera_y1 = - 8, camera_x2 = 640, camera_y2 = 480,
      tiles = [[1, 0, 31], [12, 255, 3]]\<rparr>"

section \<open>Properties\<close>

subsection \<open>Packing and unpacking integers\<close>

lemma le_uint_nonneg: "0 \<le> le_uint bs"
  by (induction bs) auto

lemma le_uint_bound: "le_uint bs < 256 ^ length bs"
proof (induction bs)
  case Nil
  show ?case by simp
next
  case (Cons b bs)
  have "uint b < 256" using uint_bounded [of b] by simp
  moreover have "le_uint bs + 1 \<le> 256 ^ length bs" using Cons by simp
  then have "256 * (le_uint bs + 1) \<le> 256 * 256 ^ length bs" by simp
  ultimately show ?case by (simp add: algebra_simps)
qed

lemma length_le_bytes [simp]: "length (le_bytes n v) = n"
  by (induction n arbitrary: v) auto

lemma le_uint_le_bytes: "0 \<le> v \<Longrightarrow> v < 256 ^ n \<Longrightarrow> le_uint (le_bytes n v) = v"
proof (induction n arbitrary: v)
  case 0
  then show ?case by simp
next
  case (Suc n)
  have "0 \<le> v div 256" using Suc.prems(1) by simp
  moreover have "v div 256 < 256 ^ n" using Suc.prems(2) by (simp add: div_less_iff_less_mult mult.commute)
  ultimately have "le_uint (le_bytes n (v div 256)) = v div 256" by (rule Suc.IH)
  moreover have "uint (word_of_int (v mod 256) :: byte) = v mod 256"
    by (simp add: uint_word_of_int)
  ultimately show ?case by simp
qed

lemma le_sint_lower: "bs \<noteq> [] \<Longrightarrow> - (256 ^ length bs div 2) \<le> le_sint bs"
proof -
  assume "bs \<noteq> []"
  then obtain n where n: "length bs = Suc n" by (cases bs) auto
  have "(256::int) ^ Suc n div 2 * 2 = 256 ^ Suc n" by simp
  then show ?thesis
    using le_uint_nonneg [of bs] le_uint_bound [of bs] unfolding le_sint_def Let_def n
    by (auto split: if_splits)
qed

lemma le_sint_upper: "bs \<noteq> [] \<Longrightarrow> le_sint bs < 256 ^ length bs div 2"
proof -
  assume "bs \<noteq> []"
  then obtain n where n: "length bs = Suc n" by (cases bs) auto
  have "(256::int) ^ Suc n div 2 * 2 = 256 ^ Suc n" by simp
  then show ?thesis
    using le_uint_nonneg [of bs] le_uint_bound [of bs] unfolding le_sint_def Let_def n
    by (auto split: if_splits)
qed

lemma le_sint_le_bytes:
  assumes "- (256 ^ n div 2) \<le> v" "v < 256 ^ n div 2" "0 < n"
  shows "le_sint (le_bytes n (v mod 256 ^ n)) = v"
proof -
  obtain m where m: "n = Suc m" using assms(3) by (cases n) auto
  have half: "(256::int) ^ n div 2 * 2 = 256 ^ n" unfolding m by simp
  define w where "w = v mod 256 ^ n"
  have u: "le_uint (le_bytes n w) = w"
    unfolding w_def by (rule le_uint_le_bytes) simp_all
  have s: "le_sint (le_bytes n w) = (if 256 ^ n \<le> 2 * w then w - 256 ^ n else w)"
    by (simp add: le_sint_def u Let_def)
  have "(if 256 ^ n \<le> 2 * w then w - 256 ^ n else w) = v"
  proof (cases "0 \<le> v")
    case True
    then have "v mod 256 ^ n = v" using assms(2) half by (intro mod_pos_pos_trivial) linarith+
    then have "w = v" by (simp add: w_def)
    then show ?thesis using assms(2) half by auto
  next
    case False
    then have "(v + 256 ^ n) mod 256 ^ n = v + 256 ^ n"
      using assms(1) half by (intro mod_pos_pos_trivial) linarith+
    then have "w = v + 256 ^ n" by (simp add: w_def)
    then show ?thesis using assms(1) half False by auto
  qed
  with s show ?thesis by (simp add: w_def)
qed

lemma pack_fields_Inr_iff: "(\<exists>b. pack_fields fs = Inr b) \<longleftrightarrow> (\<forall>f\<in>set fs. \<exists>b. f = Inr b)"
proof (induction fs)
  case Nil
  show ?case by simp
next
  case (Cons f fs)
  then show ?case by (cases f; cases "pack_fields fs") auto
qed

lemma pack_signed_Inr: "- (256 ^ n div 2) \<le> v \<Longrightarrow> v < 256 ^ n div 2 \<Longrightarrow> \<exists>b. pack_signed n v = Inr b"
  by (simp add: pack_signed_def)

lemma pack_unsigned_Inr: "0 \<le> v \<Longrightarrow> v < 256 ^ n \<Longrightarrow> \<exists>b. pack_unsigned n v = Inr b"
  by (simp add: pack_unsigned_def)





lemma replicate_3: "replicate 3 x = [x, x, x]"
  by (simp add: numeral_3_eq_3)


subsection \<open>Reading up to a terminator\<close>

lemma read_until_nul_Some_nul:
  assumes "read_until_nul acc f = Some r" shows "0 \<in> set f"
proof (rule read_until_nul.raw_induct [where P = "\<lambda>acc f r. 0 \<in> set f", OF _ assms])
  fix rec :: "byte list \<Rightarrow> byte list \<Rightarrow> (byte list \<times> byte list) option"
  fix acc f r
  assume IH: "\<And>a g y. rec a g = Some y \<Longrightarrow> 0 \<in> set g"
    and step: "(let chunk = take 1 f
                in if chunk = [0] then Some (acc, drop 1 f)
                   else rec (acc @ chunk) (drop 1 f)) = Some r"
  show "0 \<in> set f"
  proof (cases "take 1 f = [0]")
    case True
    then show ?thesis by (cases f) auto
  next
    case False
    with step have "rec (acc @ take 1 f) (drop 1 f) = Some r" by (simp add: Let_def)
    then have "0 \<in> set (drop 1 f)" by (rule IH)
    then show ?thesis by (rule in_set_dropD)
  qed
qed

lemma read_until_nul_Nil: "read_until_nul acc [] = None"
  using read_until_nul_Some_nul [of acc "[]"] by (cases "read_until_nul acc []") auto

lemma read_until_nul_Cons:
  "read_until_nul acc (b # bs) = (if b = 0 then Some (acc, bs) else read_until_nul (acc @ [b]) bs)"
  by (subst read_until_nul.simps) simp

lemma read_until_nul_append:
  "0 \<notin> set s \<Longrightarrow> read_until_nul acc (s @ 0 # rest) = Some (acc @ s, rest)"
  by (induction s arbitrary: acc) (auto simp: read_until_nul_Cons)

lemma read_until_nul_no_nul: "0 \<notin> set f \<Longrightarrow> read_until_nul acc f = None"
  using read_until_nul_Some_nul [of acc f] by (cases "read_until_nul acc f") auto

subsection \<open>Padding\<close>

lemma encode_all_length:
  "encode_all ss = Inr bs \<Longrightarrow> map length bs = map length ss"
  by (induction ss arbitrary: bs)
     (auto simp: encode_ascii_def split: sum.splits if_splits)

lemma encode_all_ascii:
  "list_all (\<lambda>s. list_all (\<lambda>c. (of_char c :: nat) < 128) s) ss \<Longrightarrow> \<exists>bs. encode_all ss = Inr bs"
  by (induction ss) (auto simp: encode_ascii_def)

lemma join_nul_length: "length (join_nul bs) = sum_list (map length bs) + (length bs - 1)"
  by (induction bs rule: join_nul.induct) auto

lemma pad_le: "(if (t::nat) mod 4 \<noteq> 0 then 4 - t mod 4 else 0) \<le> 3"
  by presburger

lemma pad_aligned: "(t + (if (t::nat) mod 4 \<noteq> 0 then 4 - t mod 4 else 0)) mod 4 = 0"
  by presburger

lemma pad_least: "j < (if (t::nat) mod 4 \<noteq> 0 then 4 - t mod 4 else 0) \<Longrightarrow> (t + j) mod 4 \<noteq> 0"
  by presburger

lemma get_padding_Inr:
  assumes "encode_all strings = Inr bs"
  shows "get_padding strings =
     Inr (replicate (if length (join_nul bs @ [0]) mod 4 \<noteq> 0 then 4 - length (join_nul bs @ [0]) mod 4 else 0) 0)"
  using assms by (simp add: get_padding_def Let_def)

lemma encode_all_same_length: "encode_all ss = Inr bs \<Longrightarrow> length bs = length ss"
  by (induction ss arbitrary: bs) (auto split: sum.splits)

text \<open>
  C6. For every list of ASCII strings, the empty list included, \<open>get_padding\<close> returns
  \<open>k\<close> zero bytes with \<open>k \<le> 3\<close> and raises nothing, and \<open>k\<close> is the least number that
  makes the length of the null-joined strings, plus the final terminator, plus \<open>k\<close> a
  multiple of 4.
\<close>

theorem get_padding_minimal:
  assumes "list_all (\<lambda>s. list_all (\<lambda>c. (of_char c :: nat) < 128) s) strings"
  shows "\<exists>k. get_padding strings = Inr (replicate k 0) \<and> k \<le> 3 \<and>
           (sum_list (map length strings) + (length strings - 1) + 1 + k) mod 4 = 0 \<and>
           (\<forall>j<k. (sum_list (map length strings) + (length strings - 1) + 1 + j) mod 4 \<noteq> 0)"
proof -
  from assms obtain bs where bs: "encode_all strings = Inr bs"
    using encode_all_ascii by blast
  have len: "map length bs = map length strings"
    using bs by (rule encode_all_length)
  have len2: "length bs = length strings"
    using bs by (rule encode_all_same_length)
  define t where "t = sum_list (map length strings) + (length strings - 1) + 1"
  define k where "k = (if t mod 4 \<noteq> 0 then 4 - t mod 4 else 0)"
  have total: "length (join_nul bs @ [0]) = t"
    unfolding t_def length_append join_nul_length len len2 by simp
  have 1: "get_padding strings = Inr (replicate k 0)"
    unfolding get_padding_Inr [OF bs] total k_def ..
  have 2: "k \<le> 3" unfolding k_def by (rule pad_le)
  have 3: "(t + k) mod 4 = 0" unfolding k_def by (rule pad_aligned)
  have 4: "\<forall>j<k. (t + j) mod 4 \<noteq> 0" unfolding k_def using pad_least by blast
  show ?thesis
    using 1 2 3 4 unfolding t_def by (intro exI [of _ k] conjI)
qed


theorem get_padding_minimal_witness:
  "list_all (\<lambda>s. list_all (\<lambda>c. (of_char c :: nat) < 128) s) [''ab'', ''c''] \<and>
   get_padding [''ab'', ''c''] = Inr (replicate 3 0) \<and>
   (\<exists>k. get_padding [''ab'', ''c''] = Inr (replicate k 0) \<and> k \<le> 3 \<and>
        (sum_list (map length [''ab'', ''c'']) + (length [''ab'', ''c''] - 1) + 1 + k) mod 4 = 0 \<and>
        (\<forall>j<k. (sum_list (map length [''ab'', ''c'']) + (length [''ab'', ''c''] - 1) + 1 + j) mod 4 \<noteq> 0))"
proof -
  have h: "list_all (\<lambda>s. list_all (\<lambda>c. (of_char c :: nat) < 128) s) [''ab'', ''c'']"
    by simp
  have v: "get_padding [''ab'', ''c''] = Inr (replicate 3 0)"
    by (simp add: get_padding_def encode_ascii_def)
  show ?thesis
    by (intro conjI h v get_padding_minimal [OF h])
qed

subsection \<open>Door geometry\<close>

text \<open>
  C3. For the door with corners (10, 20, 30, 40), \<open>bbox()\<close> without an image size returns
  \<open>((10, 40), (30, 40))\<close>: the first point carries \<open>y2\<close>, not \<open>y1\<close>, so it is not the pair of
  corner points. With an image of height 100 it returns \<open>((10, 80), (30, 60))\<close>, each
  y-coordinate reflected as \<open>100 - y\<close>.
\<close>

theorem door_bbox_without_image_size:
  "EntranceAndOrExit_bbox
     \<lparr>x1 = 10, y1 = 20, x2 = 30, y2 = 40, entrance_id = 0, exit_type_id = 0,
      exit_location_id = 0, entrance_type_id = 0, exit_scene_name = []\<rparr> None
   = ((10, 40), (30, 40)) \<and>
   EntranceAndOrExit_bbox
     \<lparr>x1 = 10, y1 = 20, x2 = 30, y2 = 40, entrance_id = 0, exit_type_id = 0,
      exit_location_id = 0, entrance_type_id = 0, exit_scene_name = []\<rparr> (Some (0, 100))
   = ((10, 80), (30, 60))"
  by (simp add: EntranceAndOrExit_bbox_def)

subsection \<open>Object records\<close>

text \<open>What the lookup does with a stored type index that is not a position of the
  table: above the table's length it raises \<open>IndexError\<close>; at 0 it returns the table's last
  entry.\<close>

lemma from_bytes_index_above_table:
  assumes "length entry = 20" "uint (entry ! 6) \<in> {0, 1}" "uint (entry ! 7) \<in> {0, 1}"
    and "entry ! 18 = 0" "entry ! 19 = 0"
    and "int (length tbl) < le_uint (bytes_at 0 2 entry)"
  shows "EblbObject_from_bytes entry tbl = Inl IndexError"
  using assms by (simp add: EblbObject_from_bytes_def py_index_def)

lemma from_bytes_index_zero:
  assumes "length entry = 20" "uint (entry ! 6) \<in> {0, 1}" "uint (entry ! 7) \<in> {0, 1}"
    and "entry ! 18 = 0" "entry ! 19 = 0"
    and "le_uint (bytes_at 0 2 entry) = 0" "tbl \<noteq> []"
  shows "map_sum id underworld_type (EblbObject_from_bytes entry tbl) = Inr (last tbl)"
proof -
  have "nat (int (length tbl) - 1) = length tbl - 1" by simp
  moreover have "Suc 0 \<le> length tbl" using assms(7) by (cases tbl) simp_all
  ultimately show ?thesis
    using assms by (simp add: EblbObject_from_bytes_def py_index_def last_conv_nth)
qed

text \<open>
  C4. A 20-byte record that passes the length, boolean and padding checks and stores the
  type index 0 is not rejected when the table is not empty: \<open>underworld_types[0 - 1]\<close> is
  the table's last entry, and the record resolves to it.
\<close>

theorem from_bytes_index_zero_resolves:
  "EblbObject_from_bytes [0,0, 1,0, 2,0, 0, 1, 0,0,0,0, 3,0, 1,0,0,0, 0,0] [''A'', ''B'']
   = Inr \<lparr>underworld_type = ''B'', x_location = 1, y_location = 2, unknown_bool6 = False,
          unknown_bool7 = True, unknown_char8 = 0, unknown_char9 = 0, unknown_chara = 0,
          unknown_charb = 0, unknown_shortc = 3, unknown_inte = 1\<rparr>"
  by (simp add: EblbObject_from_bytes_def py_index_def bytes_at_def le_sint_def)

lemma bytes_at_length: "off + n \<le> length xs \<Longrightarrow> length (bytes_at off n xs) = n"
  by (simp add: bytes_at_def)

text \<open>
  C9, as stated, fails: the record whose bytes 12 and 13 are \<open>0xFF\<close> decodes to
  \<open>unknown_shortc = -1\<close>, below 0, and \<open>to_bytes\<close> raises \<open>struct.error\<close> for
  \<open>unknown_shortc = 40000\<close>, a value of \<open>[0, 65535]\<close>.
\<close>

theorem unknown_shortc_signed_counterexample:
  "map_sum id unknown_shortc
     (EblbObject_from_bytes [1,0, 1,0, 2,0, 0, 1, 0,0,0,0, 255,255, 1,0,0,0, 0,0] [''A''])
   = Inr (- 1) \<and>
   EblbObject_to_bytes
     \<lparr>underworld_type = ''A'', x_location = 1, y_location = 2, unknown_bool6 = False,
      unknown_bool7 = True, unknown_char8 = 0, unknown_char9 = 0, unknown_chara = 0,
      unknown_charb = 0, unknown_shortc = 40000, unknown_inte = 1\<rparr> [''A'']
   = Inl StructError"
  by (simp add: EblbObject_from_bytes_def py_index_def bytes_at_def le_sint_def
      EblbObject_to_bytes_def pack_unsigned_def pack_signed_def pack_bool_def)

lemma from_bytes_unknown_ranges:
  assumes "EblbObject_from_bytes entry tbl = Inr obj"
  shows "- 32768 \<le> unknown_shortc obj \<and> unknown_shortc obj \<le> 32767 \<and>
         0 \<le> unknown_inte obj \<and> unknown_inte obj \<le> 4294967295"
proof -
  from assms have len: "length entry = 20"
    by (auto simp: EblbObject_from_bytes_def split: if_splits)
  from assms have sc: "unknown_shortc obj = le_sint (bytes_at 12 2 entry)"
    and ie: "unknown_inte obj = le_uint (bytes_at 14 4 entry)"
    by (auto simp: EblbObject_from_bytes_def Let_def split: if_splits sum.splits)
  have l2: "length (bytes_at 12 2 entry) = 2" and l4: "length (bytes_at 14 4 entry) = 4"
    using len by (simp_all add: bytes_at_def)
  then have ne: "bytes_at 12 2 entry \<noteq> []" by auto
  have "- (256 ^ 2 div 2) \<le> le_sint (bytes_at 12 2 entry)"
    using le_sint_lower [OF ne] unfolding l2 .
  moreover have "le_sint (bytes_at 12 2 entry) < 256 ^ 2 div 2"
    using le_sint_upper [OF ne] unfolding l2 .
  moreover have "0 \<le> le_uint (bytes_at 14 4 entry)" by (rule le_uint_nonneg)
  moreover have "le_uint (bytes_at 14 4 entry) < 256 ^ 4"
    using le_uint_bound [of "bytes_at 14 4 entry"] unfolding l4 .
  ultimately show ?thesis unfolding sc ie by simp
qed

lemma to_bytes_accepts_unknown:
  assumes "\<exists>b. EblbObject_to_bytes self tbl = Inr b"
    and "- 32768 \<le> s" "s \<le> 32767" "0 \<le> i" "i \<le> 4294967295"
  shows "\<exists>b. EblbObject_to_bytes (self\<lparr>unknown_shortc := s, unknown_inte := i\<rparr>) tbl = Inr b"
proof -
  from assms(1) obtain k where k: "list_index tbl (underworld_type self) = Inr k"
    by (auto simp: EblbObject_to_bytes_def split: sum.splits)
  have s: "\<exists>b. pack_signed 2 s = Inr b" using assms(2,3) by (simp add: pack_signed_def)
  have i: "\<exists>b. pack_unsigned 4 i = Inr b" using assms(4,5) by (simp add: pack_unsigned_def)
  have k': "list_index tbl (underworld_type (self\<lparr>unknown_shortc := s, unknown_inte := i\<rparr>)) = Inr k"
    using k by simp
  note A = assms(1) [unfolded EblbObject_to_bytes_def k sum.case pack_fields_Inr_iff]
  show ?thesis
    unfolding EblbObject_to_bytes_def k' sum.case pack_fields_Inr_iff
    using A s i by simp
qed


text \<open>
  C9. The 16-bit unknown field is packed and unpacked with format \<open>h\<close>, a signed short:
  every decoded record has \<open>unknown_shortc\<close> in \<open>[-32768, 32767]\<close> and \<open>unknown_inte\<close> in
  \<open>[0, 2^32 - 1]\<close>, and \<open>to_bytes\<close> accepts every value of those ranges in those fields
  (of an object it encodes at all).
\<close>

theorem unknown_fields_ranges:
  "(EblbObject_from_bytes entry tbl = Inr obj \<longrightarrow>
      - 32768 \<le> unknown_shortc obj \<and> unknown_shortc obj \<le> 32767 \<and>
      0 \<le> unknown_inte obj \<and> unknown_inte obj \<le> 4294967295) \<and>
   ((\<exists>b. EblbObject_to_bytes self tbl' = Inr b) \<and>
      - 32768 \<le> s \<and> s \<le> 32767 \<and> 0 \<le> i \<and> i \<le> 4294967295 \<longrightarrow>
      (\<exists>b. EblbObject_to_bytes (self\<lparr>unknown_shortc := s, unknown_inte := i\<rparr>) tbl' = Inr b))"
proof (rule conjI; rule impI)
  assume "EblbObject_from_bytes entry tbl = Inr obj"
  then show "- 32768 \<le> unknown_shortc obj \<and> unknown_shortc obj \<le> 32767 \<and>
      0 \<le> unknown_inte obj \<and> unknown_inte obj \<le> 4294967295"
    by (rule from_bytes_unknown_ranges)
next
  assume a: "(\<exists>b. EblbObject_to_bytes self tbl' = Inr b) \<and>
      - 32768 \<le> s \<and> s \<le> 32767 \<and> 0 \<le> i \<and> i \<le> 4294967295"
  show "\<exists>b. EblbObject_to_bytes (self\<lparr>unknown_shortc := s, unknown_inte := i\<rparr>) tbl' = Inr b"
    by (rule to_bytes_accepts_unknown) (use a in simp_all)
qed

theorem unknown_fields_ranges_witness:
  "EblbObject_from_bytes [1,0, 1,0, 2,0, 0, 1, 0,0,0,0, 255,255, 255,255,255,255, 0,0] [''A'']
     = Inr \<lparr>underworld_type = ''A'', x_location = 1, y_location = 2, unknown_bool6 = False,
            unknown_bool7 = True, unknown_char8 = 0, unknown_char9 = 0, unknown_chara = 0,
            unknown_charb = 0, unknown_shortc = - 1, unknown_inte = 4294967295\<rparr> \<and>
   (\<exists>b. EblbObject_to_bytes
          \<lparr>underworld_type = ''A'', x_location = 1, y_location = 2, unknown_bool6 = False,
           unknown_bool7 = True, unknown_char8 = 0, unknown_char9 = 0, unknown_chara = 0,
           unknown_charb = 0, unknown_shortc = 0, unknown_inte = 0\<rparr> [''A''] = Inr b) \<and>
   (\<exists>b. EblbObject_to_bytes
          \<lparr>underworld_type = ''A'', x_location = 1, y_location = 2, unknown_bool6 = False,
           unknown_bool7 = True, unknown_char8 = 0, unknown_char9 = 0, unknown_chara = 0,
           unknown_charb = 0, unknown_shortc = - 32768, unknown_inte = 4294967295\<rparr> [''A'']
        = Inr b)"
proof -
  let ?e = "[1,0, 1,0, 2,0, 0, 1, 0,0,0,0, 255,255, 255,255,255,255, 0,0] :: byte list"
  let ?o = "\<lparr>underworld_type = ''A'', x_location = 1, y_location = 2, unknown_bool6 = False,
            unknown_bool7 = True, unknown_char8 = 0, unknown_char9 = 0, unknown_chara = 0,
            unknown_charb = 0, unknown_shortc = - 1, unknown_inte = 4294967295\<rparr>"
  let ?s = "\<lparr>underworld_type = ''A'', x_location = 1, y_location = 2, unknown_bool6 = False,
           unknown_bool7 = True, unknown_char8 = 0, unknown_char9 = 0, unknown_chara = 0,
           unknown_charb = 0, unknown_shortc = 0, unknown_inte = 0\<rparr>"
  have d: "EblbObject_from_bytes ?e [''A''] = Inr ?o"
    by (simp add: EblbObject_from_bytes_def py_index_def bytes_at_def le_sint_def)
  have e: "\<exists>b. EblbObject_to_bytes ?s [''A''] = Inr b"
    by (simp add: EblbObject_to_bytes_def pack_unsigned_def pack_signed_def pack_bool_def)
  show ?thesis
    using d e unknown_fields_ranges [of ?e "[''A'']" ?o ?s "[''A'']" "- 32768" 4294967295]
    by simp
qed

subsection \<open>The rectangularity check of the encoder\<close>

lemma check_rows_bad:
  "all_tiles \<noteq> [] \<Longrightarrow> \<exists>row\<in>set rows. length row \<noteq> length (all_tiles ! 0) \<Longrightarrow>
   check_rows all_tiles rows = Inl ShantaeCurseEblbBadData"
  by (induction rows) (auto simp: py_index_def)

text \<open>
  C7. When some row of the tile grid has another length than row 0, \<open>bytes(L)\<close> raises the
  bad-data error of \<open>check_eblb\<close>: the result is the error alone, no byte is produced, and
  the encoder, a function of the Level, has not changed it.
\<close>

theorem bytes_rejects_ragged_tiles:
  assumes "row \<in> set (tiles self)" and "length row \<noteq> length (tiles self ! 0)"
  shows "ShantaeCurseEblb_bytes underworld_types self = Inl ShantaeCurseEblbBadData"
proof -
  from assms(1) have "tiles self \<noteq> []" by auto
  with assms have "check_eblb self = Inl ShantaeCurseEblbBadData"
    unfolding check_eblb_def by (intro check_rows_bad) auto
  then show ?thesis by (simp add: ShantaeCurseEblb_bytes_def)
qed

theorem bytes_rejects_ragged_tiles_witness:
  "[5] \<in> set (tiles \<lparr>objects = [], doors = [], camera_x1 = 0, camera_y1 = 0, camera_x2 = 0,
                      camera_y2 = 0, tiles = [[1, 2], [5]]\<rparr>) \<and>
   length [5::int] \<noteq> length (tiles \<lparr>objects = [], doors = [], camera_x1 = 0, camera_y1 = 0,
                      camera_x2 = 0, camera_y2 = 0, tiles = [[1, 2], [5]]\<rparr> ! 0) \<and>
   ShantaeCurseEblb_bytes [] \<lparr>objects = [], doors = [], camera_x1 = 0, camera_y1 = 0,
                      camera_x2 = 0, camera_y2 = 0, tiles = [[1, 2], [5]]\<rparr>
     = Inl ShantaeCurseEblbBadData"
  using bytes_rejects_ragged_tiles [of "[5]" "\<lparr>objects = [], doors = [], camera_x1 = 0,
      camera_y1 = 0, camera_x2 = 0, camera_y2 = 0, tiles = [[1, 2], [5]]\<rparr>" "[]"]
  by simp

text \<open>
  C10. A Level with no tile row passes \<open>check_eblb\<close>, whose loop has nothing to visit, and
  \<open>bytes(L)\<close> then raises \<open>IndexError\<close> at \<open>self.tiles[0]\<close>, an error that is not a
  \<open>ShantaeCurseEblbParsingError\<close>.
\<close>

theorem bytes_empty_tiles_index_error:
  assumes "tiles self = []"
  shows "check_eblb self = Inr () \<and> ShantaeCurseEblb_bytes underworld_types self = Inl IndexError"
  using assms by (simp add: check_eblb_def ShantaeCurseEblb_bytes_def py_index_def)

theorem bytes_empty_tiles_index_error_witness:
  "tiles \<lparr>objects = [], doors = [], camera_x1 = 0, camera_y1 = 0, camera_x2 = 0,
          camera_y2 = 0, tiles = []\<rparr> = [] \<and>
   check_eblb \<lparr>objects = [], doors = [], camera_x1 = 0, camera_y1 = 0, camera_x2 = 0,
          camera_y2 = 0, tiles = []\<rparr> = Inr () \<and>
   ShantaeCurseEblb_bytes [] \<lparr>objects = [], doors = [], camera_x1 = 0, camera_y1 = 0,
          camera_x2 = 0, camera_y2 = 0, tiles = []\<rparr> = Inl IndexError"
  using bytes_empty_tiles_index_error [of "\<lparr>objects = [], doors = [], camera_x1 = 0,
      camera_y1 = 0, camera_x2 = 0, camera_y2 = 0, tiles = []\<rparr>" "[]"]
  by simp

subsection \<open>The structured description\<close>

lemma map_items_map:
  "(\<And>x. g (h x) = Inr x) \<Longrightarrow> map_items g (map h xs) = Inr xs"
  by (induction xs) auto

lemma EblbObject_of_kwargs_asdict: "EblbObject_of_kwargs (EblbObject_asdict x) = Inr x"
  by (simp add: EblbObject_of_kwargs_def EblbObject_asdict_def)

lemma EntranceAndOrExit_of_kwargs_asdict:
  "EntranceAndOrExit_of_kwargs (EntranceAndOrExit_asdict x) = Inr x"
  by (simp add: EntranceAndOrExit_of_kwargs_def EntranceAndOrExit_asdict_def)

lemma row_of_json_JList: "row_of_json (JList (map JInt row)) = Inr row"
  by (simp add: row_of_json_def map_items_map int_of_json_def)

text \<open>
  C8. \<open>from_dict(L.to_dict())\<close> is a Level equal to \<open>L\<close>: the same objects, doors, camera
  coordinates and tile grid.
\<close>

theorem from_dict_to_dict: "from_dict (to_dict L) = Inr L"
  by (simp add: from_dict_def to_dict_def json_iter_def map_items_map
      EblbObject_of_kwargs_asdict EntranceAndOrExit_of_kwargs_asdict row_of_json_JList)

subsection \<open>Rejected inputs\<close>

lemma magic_bytes:
  "UNDERWORLD_TYPES_TYP = [85, 78, 68, 69, 82, 87, 79, 82, 76, 68, 95, 84, 89, 80, 69, 83, 95, 84, 89, 80, 0]"
  by (simp add: UNDERWORLD_TYPES_TYP_def UNDERWORLD_TYPES_TYP_name_def)

lemma from_bytes_bad_length:
  "length entry \<noteq> 20 \<Longrightarrow> EblbObject_from_bytes entry tbl = Inl ShantaeCurseEblbParsingError"
  by (simp add: EblbObject_from_bytes_def)

lemma from_bytes_bad_bool:
  "length entry = 20 \<Longrightarrow> entry ! 6 = 2 \<or> entry ! 7 = 2 \<Longrightarrow>
   EblbObject_from_bytes entry tbl = Inl ShantaeCurseEblbParsingError"
  by (auto simp: EblbObject_from_bytes_def)

lemma uint_sum_nonzero: "a \<noteq> 0 \<or> b \<noteq> 0 \<Longrightarrow> uint (a :: byte) + uint (b :: byte) \<noteq> 0"
proof -
  assume "a \<noteq> 0 \<or> b \<noteq> 0"
  then have "0 < uint a \<or> 0 < uint b" by (simp add: word_greater_zero_iff uint_0_iff less_le)
  moreover have "0 \<le> uint a" "0 \<le> uint b" by simp_all
  ultimately show ?thesis by linarith
qed

lemma from_bytes_bad_padding:
  "length entry = 20 \<Longrightarrow> entry ! 18 \<noteq> 0 \<or> entry ! 19 \<noteq> 0 \<Longrightarrow>
   EblbObject_from_bytes entry tbl \<in> {Inl ShantaeCurseEblbParsingError, Inl ShantaeCurseEblbBadData}"
  using uint_sum_nonzero [of "entry ! 18" "entry ! 19"]
  by (simp add: EblbObject_from_bytes_def)

lemma unpack_header_take:
  "16 \<le> length eblb_file \<Longrightarrow>
   unpack_header (take 16 eblb_file) =
     Inr (le_uint (bytes_at 0 2 eblb_file), le_uint (bytes_at 2 2 eblb_file), le_uint (bytes_at 4 2 eblb_file),
          le_uint (bytes_at 6 2 eblb_file), le_uint (bytes_at 8 4 eblb_file), le_uint (bytes_at 12 4 eblb_file))"
  by (simp add: unpack_header_def bytes_at_def take_drop min_def)

lemma unpack_camera_take:
  "20 \<le> length f \<Longrightarrow>
   unpack_camera (take 20 f) =
     Inr (le_sint (bytes_at 0 4 f), le_sint (bytes_at 4 4 f), le_sint (bytes_at 8 4 f),
          le_sint (bytes_at 12 4 f), le_sint (bytes_at 16 4 f))"
  by (simp add: unpack_camera_def bytes_at_def take_drop min_def)

lemma from_eblb_file_bad_sentinel:
  "16 \<le> length eblb_file \<Longrightarrow> le_uint (bytes_at 2 2 eblb_file) \<noteq> 1 \<Longrightarrow>
   from_eblb_file eblb_file = Some (Inl ShantaeCurseEblbParsingError)"
  by (simp add: from_eblb_file_def unpack_header_take)

lemma from_eblb_file_short_header:
  "length eblb_file < 16 \<Longrightarrow> from_eblb_file eblb_file = Some (Inl StructError)"
  by (simp add: from_eblb_file_def unpack_header_def)

lemma from_eblb_file_bad_camera:
  assumes "16 \<le> length eblb_file" "le_uint (bytes_at 2 2 eblb_file) = 1"
    and "bytes_at 16 21 eblb_file = UNDERWORLD_TYPES_TYP"
    and "read_underworld_types (nat (le_uint (bytes_at 6 2 eblb_file))) (drop 37 eblb_file) = Some (Inr (types, f1))"
    and "get_padding (UNDERWORLD_TYPES_TYP_name # types) = Inr pad"
    and "read_objects (nat (le_uint (bytes_at 0 2 eblb_file))) types (drop (length pad) f1) = Inr (objs, f2)"
    and "20 \<le> length f2" "le_sint (bytes_at 16 4 f2) \<noteq> 0"
  shows "from_eblb_file eblb_file = Some (Inl ShantaeCurseEblbParsingError)"
proof -
  note a = assms [unfolded bytes_at_def drop_0]
  show ?thesis
    using a(2,3,8)
    by (simp add: from_eblb_file_def unpack_header_take [OF a(1), unfolded bytes_at_def drop_0]
        a(4) a(5) a(6) unpack_camera_take [OF a(7), unfolded bytes_at_def drop_0])
qed

lemma from_eblb_file_bad_tiles:
  assumes "16 \<le> length eblb_file" "le_uint (bytes_at 2 2 eblb_file) = 1"
    and "bytes_at 16 21 eblb_file = UNDERWORLD_TYPES_TYP"
    and "read_underworld_types (nat (le_uint (bytes_at 6 2 eblb_file))) (drop 37 eblb_file) = Some (Inr (types, f1))"
    and "get_padding (UNDERWORLD_TYPES_TYP_name # types) = Inr pad"
    and "read_objects (nat (le_uint (bytes_at 0 2 eblb_file))) types (drop (length pad) f1) = Inr (objs, f2)"
    and "20 \<le> length f2" "le_sint (bytes_at 16 4 f2) = 0"
    and "read_doors (nat (le_uint (bytes_at 4 2 eblb_file))) (drop 20 f2) = Some (Inr (ds, payload))"
    and "int (length payload) \<noteq> le_uint (bytes_at 8 4 eblb_file) * le_uint (bytes_at 12 4 eblb_file)"
  shows "from_eblb_file eblb_file = Some (Inl ShantaeCurseEblbBadData)"
proof -
  note a = assms [unfolded bytes_at_def drop_0]
  show ?thesis
    using a(2,3,8,10)
    by (simp add: from_eblb_file_def unpack_header_take [OF a(1), unfolded bytes_at_def drop_0]
        a(4) a(5) a(6) unpack_camera_take [OF a(7), unfolded bytes_at_def drop_0]
        a(9) read_tiles_def)
qed


lemma char_of_65: "char_of (65::nat) = CHR ''A''"
  by code_simp

text \<open>
  C5. Each malformed input is rejected with an error: an object record of 19 or 21 bytes;
  a 20-byte record with a boolean byte equal to 2; a 20-byte record with a non-zero
  padding byte; a eblb_file whose header's sentinel is not 1; a eblb_file, read without error up
  to the camera block, whose camera block ends in a non-zero field; and a eblb_file, read
  without error up to the tile payload, whose payload length is not
  \<open>tiles_w * tiles_h\<close>.
\<close>

theorem malformed_input_rejected:
  "(length entry = 19 \<or> length entry = 21 \<longrightarrow>
      EblbObject_from_bytes entry tbl = Inl ShantaeCurseEblbParsingError) \<and>
   (length entry = 20 \<and> (entry ! 6 = 2 \<or> entry ! 7 = 2) \<longrightarrow>
      EblbObject_from_bytes entry tbl = Inl ShantaeCurseEblbParsingError) \<and>
   (length entry = 20 \<and> (entry ! 18 \<noteq> 0 \<or> entry ! 19 \<noteq> 0) \<longrightarrow>
      EblbObject_from_bytes entry tbl
        \<in> {Inl ShantaeCurseEblbParsingError, Inl ShantaeCurseEblbBadData}) \<and>
   (16 \<le> length eblb_file \<and> le_uint (bytes_at 2 2 eblb_file) \<noteq> 1 \<longrightarrow>
      from_eblb_file eblb_file = Some (Inl ShantaeCurseEblbParsingError)) \<and>
   (16 \<le> length eblb_file \<and> le_uint (bytes_at 2 2 eblb_file) = 1 \<and>
    bytes_at 16 21 eblb_file = UNDERWORLD_TYPES_TYP \<and>
    read_underworld_types (nat (le_uint (bytes_at 6 2 eblb_file))) (drop 37 eblb_file)
      = Some (Inr (types, f1)) \<and>
    get_padding (UNDERWORLD_TYPES_TYP_name # types) = Inr pad \<and>
    read_objects (nat (le_uint (bytes_at 0 2 eblb_file))) types (drop (length pad) f1)
      = Inr (objs, f2) \<and>
    20 \<le> length f2 \<and> le_sint (bytes_at 16 4 f2) \<noteq> 0 \<longrightarrow>
      from_eblb_file eblb_file = Some (Inl ShantaeCurseEblbParsingError)) \<and>
   (16 \<le> length eblb_file \<and> le_uint (bytes_at 2 2 eblb_file) = 1 \<and>
    bytes_at 16 21 eblb_file = UNDERWORLD_TYPES_TYP \<and>
    read_underworld_types (nat (le_uint (bytes_at 6 2 eblb_file))) (drop 37 eblb_file)
      = Some (Inr (types, f1)) \<and>
    get_padding (UNDERWORLD_TYPES_TYP_name # types) = Inr pad \<and>
    read_objects (nat (le_uint (bytes_at 0 2 eblb_file))) types (drop (length pad) f1)
      = Inr (objs, f2) \<and>
    20 \<le> length f2 \<and> le_sint (bytes_at 16 4 f2) = 0 \<and>
    read_doors (nat (le_uint (bytes_at 4 2 eblb_file))) (drop 20 f2) = Some (Inr (ds, payload)) \<and>
    int (length payload) \<noteq> le_uint (bytes_at 8 4 eblb_file) * le_uint (bytes_at 12 4 eblb_file) \<longrightarrow>
      from_eblb_file eblb_file = Some (Inl ShantaeCurseEblbBadData))"
proof -
  have 1: "length entry = 19 \<or> length entry = 21 \<longrightarrow>
      EblbObject_from_bytes entry tbl = Inl ShantaeCurseEblbParsingError"
    by (auto intro: from_bytes_bad_length)
  have 2: "length entry = 20 \<and> (entry ! 6 = 2 \<or> entry ! 7 = 2) \<longrightarrow>
      EblbObject_from_bytes entry tbl = Inl ShantaeCurseEblbParsingError"
    using from_bytes_bad_bool [of entry tbl] by blast
  have 3: "length entry = 20 \<and> (entry ! 18 \<noteq> 0 \<or> entry ! 19 \<noteq> 0) \<longrightarrow>
      EblbObject_from_bytes entry tbl
        \<in> {Inl ShantaeCurseEblbParsingError, Inl ShantaeCurseEblbBadData}"
    using from_bytes_bad_padding [of entry tbl] by blast
  have 4: "16 \<le> length eblb_file \<and> le_uint (bytes_at 2 2 eblb_file) \<noteq> 1 \<longrightarrow>
      from_eblb_file eblb_file = Some (Inl ShantaeCurseEblbParsingError)"
    using from_eblb_file_bad_sentinel [of eblb_file] by blast
  have 5: "16 \<le> length eblb_file \<and> le_uint (bytes_at 2 2 eblb_file) = 1 \<and>
    bytes_at 16 21 eblb_file = UNDERWORLD_TYPES_TYP \<and>
    read_underworld_types (nat (le_uint (bytes_at 6 2 eblb_file))) (drop 37 eblb_file)
      = Some (Inr (types, f1)) \<and>
    get_padding (UNDERWORLD_TYPES_TYP_name # types) = Inr pad \<and>
    read_objects (nat (le_uint (bytes_at 0 2 eblb_file))) types (drop (length pad) f1)
      = Inr (objs, f2) \<and>
    20 \<le> length f2 \<and> le_sint (bytes_at 16 4 f2) \<noteq> 0 \<longrightarrow>
      from_eblb_file eblb_file = Some (Inl ShantaeCurseEblbParsingError)"
    using from_eblb_file_bad_camera [of eblb_file types f1 pad objs f2] by blast
  have 6: "16 \<le> length eblb_file \<and> le_uint (bytes_at 2 2 eblb_file) = 1 \<and>
    bytes_at 16 21 eblb_file = UNDERWORLD_TYPES_TYP \<and>
    read_underworld_types (nat (le_uint (bytes_at 6 2 eblb_file))) (drop 37 eblb_file)
      = Some (Inr (types, f1)) \<and>
    get_padding (UNDERWORLD_TYPES_TYP_name # types) = Inr pad \<and>
    read_objects (nat (le_uint (bytes_at 0 2 eblb_file))) types (drop (length pad) f1)
      = Inr (objs, f2) \<and>
    20 \<le> length f2 \<and> le_sint (bytes_at 16 4 f2) = 0 \<and>
    read_doors (nat (le_uint (bytes_at 4 2 eblb_file))) (drop 20 f2) = Some (Inr (ds, payload)) \<and>
    int (length payload) \<noteq> le_uint (bytes_at 8 4 eblb_file) * le_uint (bytes_at 12 4 eblb_file) \<longrightarrow>
      from_eblb_file eblb_file = Some (Inl ShantaeCurseEblbBadData)"
    using from_eblb_file_bad_tiles [of eblb_file types f1 pad objs f2 ds payload] by blast
  from 1 2 3 4 5 6 show ?thesis by (intro conjI)
qed

theorem malformed_input_rejected_witness:
  "EblbObject_from_bytes (replicate 19 0) [''A''] = Inl ShantaeCurseEblbParsingError \<and>
   EblbObject_from_bytes (replicate 21 0) [''A''] = Inl ShantaeCurseEblbParsingError \<and>
   EblbObject_from_bytes [1,0, 0,0, 0,0, 2, 0, 0,0,0,0, 0,0, 0,0,0,0, 0,0] [''A'']
     = Inl ShantaeCurseEblbParsingError \<and>
   EblbObject_from_bytes [1,0, 0,0, 0,0, 0, 0, 0,0,0,0, 0,0, 0,0,0,0, 0,7] [''A'']
     \<in> {Inl ShantaeCurseEblbParsingError, Inl ShantaeCurseEblbBadData} \<and>
   from_eblb_file ([0,0, 2,0, 0,0, 1,0, 2,0,0,0, 2,0,0,0] @ drop 16 synthetic_buffer)
     = Some (Inl ShantaeCurseEblbParsingError) \<and>
   from_eblb_file
     ([0,0, 1,0, 0,0, 1,0, 2,0,0,0, 2,0,0,0] @ UNDERWORLD_TYPES_TYP @ [65, 0] @ [0]
      @ [0,0,0,0, 0,0,0,0, 10,0,0,0, 10,0,0,0, 1,0,0,0] @ [1, 2, 3, 4])
     = Some (Inl ShantaeCurseEblbParsingError) \<and>
   from_eblb_file (synthetic_buffer @ [5]) = Some (Inl ShantaeCurseEblbBadData)"
proof -
  let ?A = "[''A'']"
  let ?cam = "[0,0,0,0, 0,0,0,0, 10,0,0,0, 10,0,0,0, 0,0,0,0] :: byte list"
  let ?cam1 = "[0,0,0,0, 0,0,0,0, 10,0,0,0, 10,0,0,0, 1,0,0,0] :: byte list"
  let ?f4 = "[0,0, 2,0, 0,0, 1,0, 2,0,0,0, 2,0,0,0] @ drop 16 synthetic_buffer"
  let ?f5 = "[0,0, 1,0, 0,0, 1,0, 2,0,0,0, 2,0,0,0] @ UNDERWORLD_TYPES_TYP @ [65, 0] @ [0]
      @ ?cam1 @ [1, 2, 3, 4]"
  let ?f6 = "synthetic_buffer @ [5]"
  note ev = synthetic_buffer_def magic_bytes bytes_at_def read_until_nul_Cons decode_ascii_def
    get_padding_def encode_ascii_def UNDERWORLD_TYPES_TYP_name_def le_sint_def char_of_65
  have w1: "EblbObject_from_bytes (replicate 19 0) ?A = Inl ShantaeCurseEblbParsingError"
    using malformed_input_rejected [of "replicate 19 0" ?A] by simp
  have w1': "EblbObject_from_bytes (replicate 21 0) ?A = Inl ShantaeCurseEblbParsingError"
    using malformed_input_rejected [of "replicate 21 0" ?A] by simp
  have w2: "EblbObject_from_bytes [1,0, 0,0, 0,0, 2, 0, 0,0,0,0, 0,0, 0,0,0,0, 0,0] ?A
     = Inl ShantaeCurseEblbParsingError"
    using malformed_input_rejected [of "[1,0, 0,0, 0,0, 2, 0, 0,0,0,0, 0,0, 0,0,0,0, 0,0]" ?A]
    by simp
  have w3: "EblbObject_from_bytes [1,0, 0,0, 0,0, 0, 0, 0,0,0,0, 0,0, 0,0,0,0, 0,7] ?A
     \<in> {Inl ShantaeCurseEblbParsingError, Inl ShantaeCurseEblbBadData}"
    using malformed_input_rejected [of "[1,0, 0,0, 0,0, 0, 0, 0,0,0,0, 0,0, 0,0,0,0, 0,7]" ?A]
    by simp
  have h4: "16 \<le> length ?f4 \<and> le_uint (bytes_at 2 2 ?f4) \<noteq> 1"
    by (simp add: ev)
  have w4: "from_eblb_file ?f4 = Some (Inl ShantaeCurseEblbParsingError)"
    using h4 malformed_input_rejected [where eblb_file = ?f4] by blast
  have h5: "16 \<le> length ?f5 \<and> le_uint (bytes_at 2 2 ?f5) = 1 \<and>
    bytes_at 16 21 ?f5 = UNDERWORLD_TYPES_TYP \<and>
    read_underworld_types (nat (le_uint (bytes_at 6 2 ?f5))) (drop 37 ?f5)
      = Some (Inr (?A, [0] @ ?cam1 @ [1, 2, 3, 4])) \<and>
    get_padding (UNDERWORLD_TYPES_TYP_name # ?A) = Inr [0] \<and>
    read_objects (nat (le_uint (bytes_at 0 2 ?f5))) ?A (drop (length [0::byte]) ([0] @ ?cam1 @ [1, 2, 3, 4]))
      = Inr ([], ?cam1 @ [1, 2, 3, 4]) \<and>
    20 \<le> length (?cam1 @ [1, 2, 3, 4::byte]) \<and> le_sint (bytes_at 16 4 (?cam1 @ [1, 2, 3, 4])) \<noteq> 0"
    by (simp add: ev)
  have w5: "from_eblb_file ?f5 = Some (Inl ShantaeCurseEblbParsingError)"
    using h5 malformed_input_rejected [where eblb_file = ?f5 and types = ?A
        and ?f1.0 = "[0] @ ?cam1 @ [1, 2, 3, 4]" and pad = "[0]" and objs = "[]"
        and ?f2.0 = "?cam1 @ [1, 2, 3, 4]"]
    by blast
  have h6: "16 \<le> length ?f6 \<and> le_uint (bytes_at 2 2 ?f6) = 1 \<and>
    bytes_at 16 21 ?f6 = UNDERWORLD_TYPES_TYP \<and>
    read_underworld_types (nat (le_uint (bytes_at 6 2 ?f6))) (drop 37 ?f6)
      = Some (Inr (?A, [0] @ ?cam @ [1, 2, 3, 4, 5])) \<and>
    get_padding (UNDERWORLD_TYPES_TYP_name # ?A) = Inr [0] \<and>
    read_objects (nat (le_uint (bytes_at 0 2 ?f6))) ?A (drop (length [0::byte]) ([0] @ ?cam @ [1, 2, 3, 4, 5]))
      = Inr ([], ?cam @ [1, 2, 3, 4, 5]) \<and>
    20 \<le> length (?cam @ [1, 2, 3, 4, 5::byte]) \<and> le_sint (bytes_at 16 4 (?cam @ [1, 2, 3, 4, 5])) = 0 \<and>
    read_doors (nat (le_uint (bytes_at 4 2 ?f6))) (drop 20 (?cam @ [1, 2, 3, 4, 5]))
      = Some (Inr ([], [1, 2, 3, 4, 5])) \<and>
    int (length [1, 2, 3, 4, 5::byte]) \<noteq> le_uint (bytes_at 8 4 ?f6) * le_uint (bytes_at 12 4 ?f6)"
    by (simp add: ev)
  have w6: "from_eblb_file ?f6 = Some (Inl ShantaeCurseEblbBadData)"
    using h6 malformed_input_rejected [where eblb_file = ?f6 and types = ?A
        and ?f1.0 = "[0] @ ?cam @ [1, 2, 3, 4, 5]" and pad = "[0]" and objs = "[]"
        and ?f2.0 = "?cam @ [1, 2, 3, 4, 5]" and ds = "[]" and payload = "[1, 2, 3, 4, 5]"]
    by blast
  from w1 w1' w2 w3 w4 w5 w6 show ?thesis by (intro conjI)
qed

subsection \<open>The end-to-end example\<close>






subsection \<open>The round trip of a record\<close>

lemma from_bytes_fields:
  assumes "length f0 = 2" "length f1 = 2" "length f2 = 2" "length f9 = 2" "length f10 = 4"
    and "py_index tbl (le_uint f0 - 1) = Inr t"
  shows "EblbObject_from_bytes
           (f0 @ f1 @ f2 @ [if b6 then 1 else 0] @ [if b7 then 1 else 0] @ [c8] @ [c9] @ [ca]
            @ [cb] @ f9 @ f10 @ [0] @ [0]) tbl =
         Inr \<lparr>underworld_type = t, x_location = le_sint f1, y_location = le_sint f2,
              unknown_bool6 = b6, unknown_bool7 = b7, unknown_char8 = uint c8,
              unknown_char9 = uint c9, unknown_chara = uint ca, unknown_charb = uint cb,
              unknown_shortc = le_sint f9, unknown_inte = le_uint f10\<rparr>"
  using assms
  by (simp add: EblbObject_from_bytes_def bytes_at_def nth_append)

lemma list_index_Inr:
  "list_index xs x = Inr i \<Longrightarrow> 0 \<le> i \<and> i < int (length xs) \<and> xs ! nat i = x"
proof (induction xs arbitrary: i)
  case Nil
  then show ?case by simp
next
  case (Cons y ys)
  show ?case
  proof (cases "y = x")
    case True
    with Cons.prems show ?thesis by simp
  next
    case False
    with Cons.prems obtain j where j: "list_index ys x = Inr j" "i = j + 1"
      by (auto split: sum.splits)
    from Cons.IH [OF j(1)] have "0 \<le> j" "j < int (length ys)" "ys ! nat j = x" by auto
    then show ?thesis unfolding j(2) by (simp add: nat_add_distrib)
  qed
qed

lemma list_index_mem: "x \<in> set xs \<Longrightarrow> \<exists>i. list_index xs x = Inr i"
  by (induction xs) auto

lemma pack_unsigned_fits: "fits_unsigned n v \<Longrightarrow> pack_unsigned n v = Inr (le_bytes n v)"
  by (simp add: pack_unsigned_def fits_unsigned_def)

lemma pack_signed_fits: "fits_signed n v \<Longrightarrow> pack_signed n v = Inr (le_bytes n (v mod 256 ^ n))"
  by (simp add: pack_signed_def fits_signed_def)

lemma le_uint_fits: "fits_unsigned n v \<Longrightarrow> le_uint (le_bytes n v) = v"
  by (simp add: fits_unsigned_def le_uint_le_bytes)

lemma le_sint_fits: "fits_signed n v \<Longrightarrow> 0 < n \<Longrightarrow> le_sint (le_bytes n (v mod 256 ^ n)) = v"
  by (simp add: fits_signed_def le_sint_le_bytes)

lemma uint_byte_fits: "fits_unsigned 1 v \<Longrightarrow> uint (word_of_int v :: byte) = v"
  by (simp add: fits_unsigned_def uint_word_of_int)

lemma fits_unsigned_0 [simp]: "fits_unsigned n 0"
  by (simp add: fits_unsigned_def)

lemma fits_signed_0 [simp]: "0 < n \<Longrightarrow> fits_signed n 0"
  by (cases n) (simp_all add: fits_signed_def)

lemma fits_byte_mod: "fits_unsigned (Suc 0) v \<Longrightarrow> v mod 256 = v"
  by (simp add: fits_unsigned_def)

lemma uint_byte_fits': "fits_unsigned (Suc 0) v \<Longrightarrow> uint (word_of_int v :: byte) = v"
  by (simp add: fits_unsigned_def uint_word_of_int)

lemmas pack_signed_2 = pack_signed_fits [of 2, simplified]
lemmas pack_signed_4 = pack_signed_fits [of 4, simplified]
lemmas le_sint_2 = le_sint_fits [of 2, simplified]
lemmas le_sint_4 = le_sint_fits [of 4, simplified]

lemma object_to_bytes_wire:
  assumes "wire_object x" "list_index tbl (underworld_type x) = Inr i" "fits_unsigned 2 (i + 1)"
  shows "EblbObject_to_bytes x tbl =
     Inr (le_bytes 2 (i + 1) @ le_bytes 2 (x_location x mod 65536)
          @ le_bytes 2 (y_location x mod 65536)
          @ [if unknown_bool6 x then 1 else 0] @ [if unknown_bool7 x then 1 else 0]
          @ [word_of_int (unknown_char8 x)] @ [word_of_int (unknown_char9 x)]
          @ [word_of_int (unknown_chara x)] @ [word_of_int (unknown_charb x)]
          @ le_bytes 2 (unknown_shortc x mod 65536) @ le_bytes 4 (unknown_inte x) @ [0] @ [0])"
  using assms(1,3) unfolding wire_object_def EblbObject_to_bytes_def assms(2) sum.case
  by (simp add: pack_unsigned_fits pack_signed_2 pack_bool_def fits_byte_mod)

lemma object_round_trip:
  assumes "wire_object x" "list_index tbl (underworld_type x) = Inr i" "fits_unsigned 2 (i + 1)"
  shows "\<exists>b. EblbObject_to_bytes x tbl = Inr b \<and> length b = 20 \<and>
             EblbObject_from_bytes b tbl = Inr x"
proof -
  note li = list_index_Inr [OF assms(2)]
  have u: "le_uint (le_bytes 2 (i + 1)) = i + 1"
    using assms(3) by (rule le_uint_fits)
  have p: "py_index tbl (le_uint (le_bytes 2 (i + 1)) - 1) = Inr (underworld_type x)"
    unfolding u using li by (simp add: py_index_def)
  have w: "fits_signed 2 (x_location x)" "fits_signed 2 (y_location x)"
    "fits_unsigned (Suc 0) (unknown_char8 x)" "fits_unsigned (Suc 0) (unknown_char9 x)"
    "fits_unsigned (Suc 0) (unknown_chara x)" "fits_unsigned (Suc 0) (unknown_charb x)"
    "fits_signed 2 (unknown_shortc x)" "fits_unsigned 4 (unknown_inte x)"
    using assms(1) by (simp_all add: wire_object_def)
  have d: "EblbObject_from_bytes
     (le_bytes 2 (i + 1) @ le_bytes 2 (x_location x mod 65536)
          @ le_bytes 2 (y_location x mod 65536)
          @ [if unknown_bool6 x then 1 else 0] @ [if unknown_bool7 x then 1 else 0]
          @ [word_of_int (unknown_char8 x)] @ [word_of_int (unknown_char9 x)]
          @ [word_of_int (unknown_chara x)] @ [word_of_int (unknown_charb x)]
          @ le_bytes 2 (unknown_shortc x mod 65536) @ le_bytes 4 (unknown_inte x) @ [0] @ [0])
     tbl = Inr x"
    by (subst from_bytes_fields [OF _ _ _ _ _ p])
       (simp_all add: w le_sint_2 le_uint_fits uint_byte_fits')
  show ?thesis
    unfolding object_to_bytes_wire [OF assms] using d by simp
qed

subsection \<open>The round trip of a Level\<close>

lemma objects_round_trip:
  assumes "list_all wire_object xs" "set (map underworld_type xs) \<subseteq> set tbl"
    and "fits_unsigned 2 (int (length tbl))"
  shows "\<exists>bs. objects_to_bytes xs tbl = Inr bs \<and>
              (\<forall>rest. read_objects (length xs) tbl (bs @ rest) = Inr (xs, rest))"
  using assms(1,2)
proof (induction xs)
  case Nil
  show ?case by simp
next
  case (Cons x xs)
  from Cons.prems(1) have wx: "wire_object x" and wxs: "list_all wire_object xs"
    by simp_all
  from Cons.prems(2) have mem: "underworld_type x \<in> set tbl"
    and sub: "set (map underworld_type xs) \<subseteq> set tbl"
    by simp_all
  from list_index_mem [OF mem] obtain i where i: "list_index tbl (underworld_type x) = Inr i" ..
  have "i < int (length tbl)" using list_index_Inr [OF i] by simp
  moreover have "0 \<le> i" using list_index_Inr [OF i] by simp
  ultimately have "fits_unsigned 2 (i + 1)"
    using assms(3) unfolding fits_unsigned_def by linarith
  from object_round_trip [OF wx i this] obtain b where
    b: "EblbObject_to_bytes x tbl = Inr b" "length b = 20" "EblbObject_from_bytes b tbl = Inr x"
    by blast
  from Cons.IH [OF wxs sub] obtain bs where
    bs: "objects_to_bytes xs tbl = Inr bs"
      "\<And>rest. read_objects (length xs) tbl (bs @ rest) = Inr (xs, rest)"
    by blast
  have e: "objects_to_bytes (x # xs) tbl = Inr (b @ bs)"
    by (simp add: b(1) bs(1))
  have d: "read_objects (length (x # xs)) tbl ((b @ bs) @ rest) = Inr (x # xs, rest)" for rest
    by (simp add: b(2,3) bs(2))
  show ?case using e d by blast
qed

lemma c_string_ascii: "c_string s \<Longrightarrow> list_all (\<lambda>c. (of_char c :: nat) < 128) s"
  by (simp add: c_string_def list_all_iff)

lemma encode_ascii_c_string:
  "c_string s \<Longrightarrow> encode_ascii s = Inr (map (\<lambda>c. word_of_nat (of_char c)) s)"
  by (simp add: encode_ascii_def c_string_ascii)

lemma ascii_byte: "(of_char c :: nat) < 128 \<Longrightarrow> unat (word_of_nat (of_char c) :: byte) = of_char c"
  by (simp add: unat_of_nat)

lemma decode_encoded:
  assumes "c_string s"
  shows "decode_ascii (map (\<lambda>c. word_of_nat (of_char c)) s) = Inr s"
proof -
  have a: "\<forall>c\<in>set s. (of_char c :: nat) < 128"
    using assms by (simp add: c_string_def list_all_iff)
  then have 1: "list_all (\<lambda>w. unat w < 128) (map (\<lambda>c. word_of_nat (of_char c) :: byte) s)"
    by (simp add: list_all_iff ascii_byte)
  have 2: "map (\<lambda>w. char_of (unat w)) (map (\<lambda>c. word_of_nat (of_char c) :: byte) s) = s"
    using a by (induction s) (simp_all add: ascii_byte)
  show ?thesis unfolding decode_ascii_def using 1 2 by simp
qed

lemma encoded_no_nul:
  assumes "c_string s"
  shows "(0::byte) \<notin> set (map (\<lambda>c. word_of_nat (of_char c)) s)"
proof
  assume "(0::byte) \<in> set (map (\<lambda>c. word_of_nat (of_char c)) s)"
  then obtain c where c: "c \<in> set s" "(word_of_nat (of_char c) :: byte) = 0" by auto
  from assms c(1) have r: "(of_char c :: nat) < 128" "(of_char c :: nat) \<noteq> 0"
    by (simp_all add: c_string_def list_all_iff)
  from c(2) have "unat (word_of_nat (of_char c) :: byte) = 0" by simp
  with r show False by (simp add: ascii_byte)
qed

lemma encode_all_c_strings:
  "list_all c_string ss \<Longrightarrow> encode_all ss = Inr (map (map (\<lambda>c. word_of_nat (of_char c))) ss)"
  by (induction ss) (simp_all add: encode_ascii_c_string)

lemma join_nul_Cons: "bs \<noteq> [] \<Longrightarrow> join_nul (b # bs) = b @ 0 # join_nul bs"
  by (cases bs) simp_all

lemma read_one_string:
  assumes "c_string s"
  shows "read_until_nul [] (map (\<lambda>c. word_of_nat (of_char c)) s @ 0 # rest)
           = Some (map (\<lambda>c. word_of_nat (of_char c)) s, rest)"
  using read_until_nul_append [OF encoded_no_nul [OF assms], of "[]" rest] by simp

lemma read_underworld_types_encoded:
  assumes "ss \<noteq> []" "list_all c_string ss"
  shows "read_underworld_types (length ss)
           (join_nul (map (map (\<lambda>c. word_of_nat (of_char c))) ss) @ 0 # rest)
         = Some (Inr (ss, rest))"
  using assms
proof (induction ss rule: list_nonempty_induct)
  case (single s)
  then have s: "c_string s" by simp
  show ?case by (simp add: read_one_string [OF s] decode_encoded [OF s])
next
  case (cons s ss)
  from cons.prems have s: "c_string s" and ss: "list_all c_string ss" by simp_all
  have j: "join_nul (map (map (\<lambda>c. word_of_nat (of_char c))) (s # ss))
        = map (\<lambda>c. word_of_nat (of_char c)) s @ 0 # join_nul (map (map (\<lambda>c. word_of_nat (of_char c))) ss)"
    using cons.hyps by (simp add: join_nul_Cons)
  show ?case
    unfolding j by (simp add: read_one_string [OF s] decode_encoded [OF s] cons.IH [OF ss])
qed

lemma get_padding_c_strings:
  "list_all c_string ss \<Longrightarrow> \<exists>pad. get_padding ss = Inr pad"
  by (simp add: get_padding_def encode_all_c_strings Let_def)

lemma chunks_Nil [simp]: "chunks w [] = []"
  by (subst chunks.simps) simp

lemma chunks_append:
  "length r = w \<Longrightarrow> 0 < w \<Longrightarrow> chunks w (r @ xs) = r # chunks w xs"
  by (subst chunks.simps) (auto simp del: chunks.simps)

lemma chunks_concat:
  "list_all (\<lambda>r. length r = w) rows \<Longrightarrow> 0 < w \<Longrightarrow> chunks w (concat rows) = rows"
  by (induction rows) (simp_all add: chunks_append del: chunks.simps)

lemma length_concat_rect:
  "list_all (\<lambda>r. length r = w) rows \<Longrightarrow> length (concat rows) = w * length rows"
  by (induction rows) simp_all

lemma uint_row:
  "list_all (\<lambda>j. 0 \<le> j \<and> j < 256) row \<Longrightarrow> map (uint \<circ> (word_of_int :: int \<Rightarrow> byte)) row = row"
  by (induction row) (simp_all add: uint_word_of_int)

lemma tiles_round_trip:
  assumes "list_all (\<lambda>r. length r = w) rows" "0 < w"
    and "list_all (list_all (\<lambda>j. 0 \<le> j \<and> j < 256)) rows"
  shows "bytes_of_ints (concat rows) = Inr (map word_of_int (concat rows))"
    and "read_tiles (int w) (int (length rows)) (map word_of_int (concat rows)) = Inr rows"
proof -
  have inr: "list_all (\<lambda>j. 0 \<le> j \<and> j < 256) (concat rows)"
    using assms(3) by (induction rows) simp_all
  then show "bytes_of_ints (concat rows) = Inr (map word_of_int (concat rows))"
    by (simp add: bytes_of_ints_def)
  have c: "map (word_of_int :: int \<Rightarrow> byte) (concat rows) = concat (map (map word_of_int) rows)"
    by (simp add: map_concat)
  have l: "list_all (\<lambda>r. length r = w) (map (map (word_of_int :: int \<Rightarrow> byte)) rows)"
    using assms(1) by (simp add: list_all_iff)
  have ch: "chunks w (map (word_of_int :: int \<Rightarrow> byte) (concat rows)) = map (map word_of_int) rows"
    unfolding c by (rule chunks_concat [OF l assms(2)])
  have u: "map (map (uint \<circ> (word_of_int :: int \<Rightarrow> byte))) rows = rows"
    using assms(3) by (induction rows) (simp_all add: uint_row)
  have len: "int (length (map (word_of_int :: int \<Rightarrow> byte) (concat rows))) = int w * int (length rows)"
    using length_concat_rect [OF assms(1)] by simp
  show "read_tiles (int w) (int (length rows)) (map word_of_int (concat rows)) = Inr rows"
    unfolding read_tiles_def using len assms(2) by (simp add: ch u del: chunks.simps)
qed

lemma door_from_bytes_fields:
  assumes "length f0 = 4" "length f1 = 4" "length f2 = 4" "length f3 = 4" "length f4 = 4"
    and "length f5 = 2" "length f6 = 4" "length f7 = 2"
  shows "EntranceAndOrExit_from_bytes (f0 @ f1 @ f2 @ f3 @ f4 @ f5 @ f6 @ f7) nm =
         Inr \<lparr>x1 = le_sint f0, y1 = le_sint f1, x2 = le_sint f2, y2 = le_sint f3,
              entrance_id = le_sint f4, exit_type_id = le_uint f5,
              exit_location_id = le_uint f6, entrance_type_id = le_uint f7,
              exit_scene_name = nm\<rparr>"
  using assms by (simp add: EntranceAndOrExit_from_bytes_def bytes_at_def)

lemma door_head_round_trip:
  assumes "wire_door d"
  shows "\<exists>head. length head = 28 \<and>
           pack_fields
             [pack_signed 4 (x1 d), pack_signed 4 (y1 d), pack_signed 4 (x2 d),
              pack_signed 4 (y2 d), pack_signed 4 (entrance_id d),
              pack_unsigned 2 (exit_type_id d), pack_unsigned 4 (exit_location_id d),
              pack_unsigned 2 (entrance_type_id d)] = Inr head \<and>
           EntranceAndOrExit_from_bytes head (exit_scene_name d) = Inr d"
proof -
  have w: "fits_signed 4 (x1 d)" "fits_signed 4 (y1 d)" "fits_signed 4 (x2 d)"
    "fits_signed 4 (y2 d)" "fits_signed 4 (entrance_id d)" "fits_unsigned 2 (exit_type_id d)"
    "fits_unsigned 4 (exit_location_id d)" "fits_unsigned 2 (entrance_type_id d)"
    using assms by (simp_all add: wire_door_def)
  let ?head = "le_bytes 4 (x1 d mod 4294967296) @ le_bytes 4 (y1 d mod 4294967296)
      @ le_bytes 4 (x2 d mod 4294967296) @ le_bytes 4 (y2 d mod 4294967296)
      @ le_bytes 4 (entrance_id d mod 4294967296) @ le_bytes 2 (exit_type_id d)
      @ le_bytes 4 (exit_location_id d) @ le_bytes 2 (entrance_type_id d)"
  have 1: "length ?head = 28" by simp
  have 2: "pack_fields
             [pack_signed 4 (x1 d), pack_signed 4 (y1 d), pack_signed 4 (x2 d),
              pack_signed 4 (y2 d), pack_signed 4 (entrance_id d),
              pack_unsigned 2 (exit_type_id d), pack_unsigned 4 (exit_location_id d),
              pack_unsigned 2 (entrance_type_id d)] = Inr ?head"
    by (simp add: w pack_signed_4 pack_unsigned_fits)
  have 3: "EntranceAndOrExit_from_bytes ?head (exit_scene_name d) = Inr d"
    by (subst door_from_bytes_fields) (simp_all add: w le_sint_4 le_uint_fits)
  from 1 2 3 show ?thesis by (intro exI [of _ ?head] conjI)
qed

lemma door_round_trip:
  assumes "wire_door d"
  shows "\<exists>b. EntranceAndOrExit_to_bytes d = Inr b \<and>
           (\<forall>n rest. read_doors (Suc n) (b @ rest) =
              (case read_doors n rest of
                 None \<Rightarrow> None
               | Some (Inl e) \<Rightarrow> Some (Inl e)
               | Some (Inr (ds, f2)) \<Rightarrow> Some (Inr (d # ds, f2))))"
proof -
  from assms have nm: "c_string (exit_scene_name d)" by (simp add: wire_door_def)
  let ?nm = "map (\<lambda>c. word_of_nat (of_char c) :: byte) (exit_scene_name d)"
  from door_head_round_trip [OF assms] obtain head where
    head: "length head = 28"
      "pack_fields
             [pack_signed 4 (x1 d), pack_signed 4 (y1 d), pack_signed 4 (x2 d),
              pack_signed 4 (y2 d), pack_signed 4 (entrance_id d),
              pack_unsigned 2 (exit_type_id d), pack_unsigned 4 (exit_location_id d),
              pack_unsigned 2 (entrance_type_id d)] = Inr head"
      "EntranceAndOrExit_from_bytes head (exit_scene_name d) = Inr d"
    by (elim exE conjE)
  from nm have "list_all c_string [exit_scene_name d]" by simp
  from get_padding_c_strings [OF this] obtain pad where
    pad: "get_padding [exit_scene_name d] = Inr pad" ..
  have e: "EntranceAndOrExit_to_bytes d = Inr (head @ ?nm @ [0] @ pad)"
    unfolding EntranceAndOrExit_to_bytes_def head(2)
    by (simp add: encode_ascii_c_string [OF nm] pad)
  have r: "read_doors (Suc n) ((head @ ?nm @ [0] @ pad) @ rest) =
              (case read_doors n rest of
                 None \<Rightarrow> None
               | Some (Inl e) \<Rightarrow> Some (Inl e)
               | Some (Inr (ds, f2)) \<Rightarrow> Some (Inr (d # ds, f2)))" for n rest
    by (simp add: head(1,3) read_one_string [OF nm] decode_encoded [OF nm] pad Let_def)
  from e r show ?thesis by (intro exI [of _ "head @ ?nm @ [0] @ pad"] conjI allI)
qed

lemma doors_round_trip:
  assumes "list_all wire_door ds"
  shows "\<exists>bs. doors_to_bytes ds = Inr bs \<and>
              (\<forall>rest. read_doors (length ds) (bs @ rest) = Some (Inr (ds, rest)))"
  using assms
proof (induction ds)
  case Nil
  show ?case by simp
next
  case (Cons d ds)
  from Cons.prems have wd: "wire_door d" and wds: "list_all wire_door ds" by simp_all
  from door_round_trip [OF wd] obtain b where
    b: "EntranceAndOrExit_to_bytes d = Inr b"
      "\<And>n rest. read_doors (Suc n) (b @ rest) =
              (case read_doors n rest of
                 None \<Rightarrow> None
               | Some (Inl e) \<Rightarrow> Some (Inl e)
               | Some (Inr (ds, f2)) \<Rightarrow> Some (Inr (d # ds, f2)))"
    by (elim exE conjE) blast
  from Cons.IH [OF wds] obtain bs where
    bs: "doors_to_bytes ds = Inr bs"
      "\<And>rest. read_doors (length ds) (bs @ rest) = Some (Inr (ds, rest))"
    by (elim exE conjE) blast
  have e: "doors_to_bytes (d # ds) = Inr (b @ bs)"
    by (simp add: b(1) bs(1))
  have r: "read_doors (length (d # ds)) ((b @ bs) @ rest) = Some (Inr (d # ds, rest))" for rest
    using b(2) [of "length ds" "bs @ rest"] by (simp add: bs(2))
  from e r show ?case by (intro exI [of _ "b @ bs"] conjI allI)
qed

lemma header_round_trip:
  assumes "fits_unsigned 2 oc" "fits_unsigned 2 dc" "fits_unsigned 2 tc"
    and "fits_unsigned 4 tx" "fits_unsigned 4 ty"
  shows "\<exists>header. length header = 16 \<and>
           pack_fields [pack_unsigned 2 oc, pack_unsigned 2 1, pack_unsigned 2 dc,
                        pack_unsigned 2 tc, pack_unsigned 4 tx, pack_unsigned 4 ty]
             = Inr header \<and>
           unpack_header header = Inr (oc, 1, dc, tc, tx, ty)"
proof -
  let ?h = "le_bytes 2 oc @ le_bytes 2 1 @ le_bytes 2 dc @ le_bytes 2 tc @ le_bytes 4 tx
            @ le_bytes 4 ty"
  have one: "fits_unsigned 2 1" by (simp add: fits_unsigned_def)
  have 1: "length ?h = 16" by simp
  have 2: "pack_fields [pack_unsigned 2 oc, pack_unsigned 2 1, pack_unsigned 2 dc,
                        pack_unsigned 2 tc, pack_unsigned 4 tx, pack_unsigned 4 ty] = Inr ?h"
    by (simp add: assms one pack_unsigned_fits)
  have 3: "unpack_header ?h = Inr (oc, 1, dc, tc, tx, ty)"
    by (simp add: unpack_header_def bytes_at_def assms one le_uint_fits)
  from 1 2 3 show ?thesis by (intro exI [of _ ?h] conjI)
qed

lemma camera_round_trip:
  assumes "fits_signed 4 a" "fits_signed 4 b" "fits_signed 4 c" "fits_signed 4 d"
  shows "\<exists>camera. length camera = 20 \<and>
           pack_fields [pack_signed 4 a, pack_signed 4 b, pack_signed 4 c, pack_signed 4 d,
                        pack_signed 4 0] = Inr camera \<and>
           unpack_camera camera = Inr (a, b, c, d, 0)"
proof -
  let ?c = "le_bytes 4 (a mod 4294967296) @ le_bytes 4 (b mod 4294967296)
            @ le_bytes 4 (c mod 4294967296) @ le_bytes 4 (d mod 4294967296) @ le_bytes 4 0"
  have z: "fits_signed 4 0" by simp
  have 1: "length ?c = 20" by simp
  have 2: "pack_fields [pack_signed 4 a, pack_signed 4 b, pack_signed 4 c, pack_signed 4 d,
                        pack_signed 4 0] = Inr ?c"
    using pack_signed_4 [OF z] by (simp add: assms pack_signed_4)
  have 3: "unpack_camera ?c = Inr (a, b, c, d, 0)"
    using le_sint_4 [OF z] by (simp add: unpack_camera_def bytes_at_def assms le_sint_4)
  from 1 2 3 show ?thesis by (intro exI [of _ ?c] conjI)
qed

lemma from_eblb_file_parts:
  assumes "length H = 16" "unpack_header H = Inr (oc, 1, dc, tc, tx, ty)"
    and "read_underworld_types (nat tc) F1 = Some (Inr (types, P @ F2))"
    and "get_padding (UNDERWORLD_TYPES_TYP_name # types) = Inr P"
    and "read_objects (nat oc) types F2 = Inr (objs, C @ F3)"
    and "length C = 20" "unpack_camera C = Inr (a, b, c, d, 0)"
    and "read_doors (nat dc) F3 = Some (Inr (ds, F4))"
    and "read_tiles tx ty F4 = Inr rows"
  shows "from_eblb_file (H @ UNDERWORLD_TYPES_TYP @ F1) =
           Some (Inr \<lparr>objects = objs, doors = ds, camera_x1 = a, camera_y1 = b,
                      camera_x2 = c, camera_y2 = d, tiles = rows\<rparr>)"
proof -
  have m: "length UNDERWORLD_TYPES_TYP = 21" by (simp add: magic_bytes)
  show ?thesis
    unfolding from_eblb_file_def
    by (simp add: assms m)
qed

lemma check_rows_ok:
  "all_tiles \<noteq> [] \<Longrightarrow> list_all (\<lambda>row. length row = length (hd all_tiles)) rows \<Longrightarrow>
   check_rows all_tiles rows = Inr ()"
  by (induction rows) (simp_all add: py_index_def hd_conv_nth)

lemma listing_length:
  assumes "distinct tbl" "set tbl = set (map f xs)"
  shows "length tbl \<le> length xs"
proof -
  have "length tbl = card (set tbl)" using assms(1) by (simp add: distinct_card)
  also have "\<dots> = card (set (map f xs))" by (simp only: assms(2))
  also have "\<dots> \<le> length (map f xs)" by (rule card_length)
  finally show ?thesis by simp
qed

lemma magic_name_c_string: "c_string UNDERWORLD_TYPES_TYP_name"
  by (simp add: c_string_def UNDERWORLD_TYPES_TYP_name_def)

text \<open>
  The path through a table that is not empty. For every Level that the file format can
  hold, with at least one object, and every listing of the set of its objects' type
  names, encoding succeeds and decoding the bytes returns the Level itself: the same
  objects with their type names, doors, camera coordinates and tile grid.
\<close>

lemma decode_encode_with_objects:
  assumes "wire_level self" and "set_listing underworld_types self"
    and objs_ne: "objects self \<noteq> []"
  shows "\<exists>b. ShantaeCurseEblb_bytes underworld_types self = Inr b \<and>
             from_eblb_file b = Some (Inr self)"
proof -
  let ?enc = "map (\<lambda>c. word_of_nat (of_char c) :: byte)"
  let ?w = "length (hd (tiles self))"
  from assms(1) have
    n_objs: "fits_unsigned 2 (int (length (objects self)))" and
    n_doors: "fits_unsigned 2 (int (length (doors self)))" and
    w_objs: "list_all wire_object (objects self)" and
    w_doors: "list_all wire_door (doors self)" and
    cam: "fits_signed 4 (camera_x1 self)" "fits_signed 4 (camera_y1 self)"
         "fits_signed 4 (camera_x2 self)" "fits_signed 4 (camera_y2 self)" and
    tiles_ne: "tiles self \<noteq> []" and
    row_ne: "hd (tiles self) \<noteq> []" and
    rect: "list_all (\<lambda>row. length row = ?w) (tiles self)" and
    n_cols: "fits_unsigned 4 (int ?w)" and
    n_rows: "fits_unsigned 4 (int (length (tiles self)))" and
    ids: "list_all (list_all (\<lambda>j. 0 \<le> j \<and> j < 256)) (tiles self)"
    unfolding wire_level_def by simp_all
  from assms(2) have
    dist: "distinct underworld_types" and
    names: "set underworld_types = set (map underworld_type (objects self))"
    unfolding set_listing_def by simp_all
  have tbl_ne: "underworld_types \<noteq> []"
    using names objs_ne by auto
  have tbl_c: "list_all c_string underworld_types"
  proof -
    have "c_string t" if "t \<in> set underworld_types" for t
    proof -
      from that names obtain x where x: "x \<in> set (objects self)" "t = underworld_type x"
        by auto
      from w_objs x(1) have "wire_object x" by (simp add: list_all_iff)
      then show ?thesis unfolding x(2) by (simp add: wire_object_def)
    qed
    then show ?thesis by (simp add: list_all_iff)
  qed
  have "length underworld_types \<le> length (objects self)"
    using dist names by (rule listing_length)
  then have n_types: "fits_unsigned 2 (int (length underworld_types))"
    using n_objs unfolding fits_unsigned_def by linarith
  have sub: "set (map underworld_type (objects self)) \<subseteq> set underworld_types"
    using names by simp
  have chk: "check_eblb self = Inr ()"
    unfolding check_eblb_def using tiles_ne rect by (rule check_rows_ok)
  have row0: "py_index (tiles self) 0 = Inr (hd (tiles self))"
    using tiles_ne by (simp add: py_index_def hd_conv_nth)
  from header_round_trip [OF n_objs n_doors n_types n_cols n_rows] obtain header where
    header: "length header = 16"
      "pack_fields [pack_unsigned 2 (int (length (objects self))), pack_unsigned 2 1,
                    pack_unsigned 2 (int (length (doors self))),
                    pack_unsigned 2 (int (length underworld_types)),
                    pack_unsigned 4 (int ?w), pack_unsigned 4 (int (length (tiles self)))]
         = Inr header"
      "unpack_header header =
         Inr (int (length (objects self)), 1, int (length (doors self)),
              int (length underworld_types), int ?w, int (length (tiles self)))"
    by (elim exE conjE)
  have enc: "encode_all underworld_types = Inr (map ?enc underworld_types)"
    using tbl_c by (rule encode_all_c_strings)
  have "list_all c_string (UNDERWORLD_TYPES_TYP_name # underworld_types)"
    using tbl_c magic_name_c_string by simp
  from get_padding_c_strings [OF this] obtain pad where
    pad: "get_padding (UNDERWORLD_TYPES_TYP_name # underworld_types) = Inr pad" ..
  from objects_round_trip [OF w_objs sub n_types] obtain object_bytes where
    obs: "objects_to_bytes (objects self) underworld_types = Inr object_bytes"
      "\<And>rest. read_objects (length (objects self)) underworld_types (object_bytes @ rest)
          = Inr (objects self, rest)"
    by (elim exE conjE) blast
  from camera_round_trip [OF cam] obtain camera where
    camera: "length camera = 20"
      "pack_fields [pack_signed 4 (camera_x1 self), pack_signed 4 (camera_y1 self),
                    pack_signed 4 (camera_x2 self), pack_signed 4 (camera_y2 self),
                    pack_signed 4 0] = Inr camera"
      "unpack_camera camera =
         Inr (camera_x1 self, camera_y1 self, camera_x2 self, camera_y2 self, 0)"
    by (elim exE conjE)
  from doors_round_trip [OF w_doors] obtain door_bytes where
    dbs: "doors_to_bytes (doors self) = Inr door_bytes"
      "\<And>rest. read_doors (length (doors self)) (door_bytes @ rest)
          = Some (Inr (doors self, rest))"
    by (elim exE conjE) blast
  have w_pos: "0 < ?w" using row_ne by simp
  let ?tile_bytes = "map word_of_int (concat (tiles self)) :: byte list"
  note tl = tiles_round_trip [OF rect w_pos ids]
  let ?b = "header @ UNDERWORLD_TYPES_TYP @ join_nul (map ?enc underworld_types) @ [0] @ pad
            @ object_bytes @ camera @ door_bytes @ ?tile_bytes"
  have encoded: "ShantaeCurseEblb_bytes underworld_types self = Inr ?b"
    unfolding ShantaeCurseEblb_bytes_def
    by (simp add: chk row0 header(2) enc pad obs(1) camera(2) dbs(1) tl(1))
  have types: "read_underworld_types (nat (int (length underworld_types)))
                 (join_nul (map ?enc underworld_types) @ 0 # pad @ object_bytes @ camera
                  @ door_bytes @ ?tile_bytes)
               = Some (Inr (underworld_types,
                            pad @ object_bytes @ camera @ door_bytes @ ?tile_bytes))"
    using read_underworld_types_encoded [OF tbl_ne tbl_c] by simp
  have objs: "read_objects (nat (int (length (objects self)))) underworld_types
                (object_bytes @ camera @ door_bytes @ ?tile_bytes)
              = Inr (objects self, camera @ door_bytes @ ?tile_bytes)"
    using obs(2) by simp
  have ds: "read_doors (nat (int (length (doors self)))) (door_bytes @ ?tile_bytes)
              = Some (Inr (doors self, ?tile_bytes))"
    using dbs(2) by simp
  have "from_eblb_file
          (header @ UNDERWORLD_TYPES_TYP
           @ (join_nul (map ?enc underworld_types) @ 0 # pad @ object_bytes @ camera
              @ door_bytes @ ?tile_bytes))
        = Some (Inr \<lparr>objects = objects self, doors = doors self,
                     camera_x1 = camera_x1 self, camera_y1 = camera_y1 self,
                     camera_x2 = camera_x2 self, camera_y2 = camera_y2 self,
                     tiles = tiles self\<rparr>)"
    by (rule from_eblb_file_parts [OF header(1) header(3) types pad objs camera(1) camera(3)
          ds tl(2)])
  then have decoded: "from_eblb_file ?b = Some (Inr self)"
    by simp
  from encoded decoded show ?thesis
    by (intro exI [of _ ?b] conjI)
qed

lemma decode_encode_with_objects_example:
  "wire_level (example_level ''A'') \<and> set_listing [''A''] (example_level ''A'') \<and>
   objects (example_level ''A'') \<noteq> [] \<and>
   (\<exists>b. ShantaeCurseEblb_bytes [''A''] (example_level ''A'') = Inr b \<and>
        from_eblb_file b = Some (Inr (example_level ''A'')))"
proof -
  have h1: "wire_level (example_level ''A'')"
    by (simp add: wire_level_def example_level_def wire_object_def wire_door_def
        fits_unsigned_def fits_signed_def c_string_def)
  have h2: "set_listing [''A''] (example_level ''A'')"
    by (simp add: set_listing_def example_level_def)
  have h3: "objects (example_level ''A'') \<noteq> []"
    by (simp add: example_level_def)
  from h1 h2 h3 decode_encode_with_objects [OF h1 h2 h3] show ?thesis
    by (intro conjI)
qed

text \<open>
  Why \<open>c_string\<close> excludes the null: a name is written up to a terminating null, so it
  is read back up to its first null. The example Level with the type name \<open>"a\x00"\<close>
  encodes, and the bytes decode to the Level whose object has the type name \<open>"a"\<close>.
\<close>

lemma name_with_null_cut_short:
  "set_listing [[CHR ''a'', CHR 0x00]] (example_level [CHR ''a'', CHR 0x00]) \<and>
   check_eblb (example_level [CHR ''a'', CHR 0x00]) = Inr () \<and>
   map_sum id from_eblb_file
     (ShantaeCurseEblb_bytes [[CHR ''a'', CHR 0x00]] (example_level [CHR ''a'', CHR 0x00]))
     = Inr (Some (Inr (example_level ''a''))) \<and>
   example_level ''a'' \<noteq> example_level [CHR ''a'', CHR 0x00]"
  by code_simp

subsection \<open>The round trip of a Level without objects\<close>

text \<open>
  For an empty table the encoder still writes the terminator that follows the joined
  names, so the table region has 25 bytes where the decoder, given \<open>type_count = 0\<close>,
  skips the 21 bytes of the magic string and 3 bytes of padding. Every later region is
  then read one byte early. Without doors the decoder either finds the camera block's
  last field not 0 or finds the tile payload one byte too long: no such Level is read
  back.
\<close>

lemma padding_of_magic: "get_padding [UNDERWORLD_TYPES_TYP_name] = Inr [0, 0, 0]"
  by (simp add: get_padding_def encode_ascii_def UNDERWORLD_TYPES_TYP_name_def replicate_3)

lemma no_object_no_door_not_read_back:
  assumes "wire_level self" "objects self = []" "doors self = []"
    and "set_listing underworld_types self"
  shows "\<exists>b. ShantaeCurseEblb_bytes underworld_types self = Inr b \<and>
             from_eblb_file b
               \<in> {Some (Inl ShantaeCurseEblbParsingError), Some (Inl ShantaeCurseEblbBadData)}"
proof -
  let ?w = "length (hd (tiles self))"
  from assms(1) have
    cam: "fits_signed 4 (camera_x1 self)" "fits_signed 4 (camera_y1 self)"
         "fits_signed 4 (camera_x2 self)" "fits_signed 4 (camera_y2 self)" and
    tiles_ne: "tiles self \<noteq> []" and
    row_ne: "hd (tiles self) \<noteq> []" and
    rect: "list_all (\<lambda>row. length row = ?w) (tiles self)" and
    n_cols: "fits_unsigned 4 (int ?w)" and
    n_rows: "fits_unsigned 4 (int (length (tiles self)))" and
    ids: "list_all (list_all (\<lambda>j. 0 \<le> j \<and> j < 256)) (tiles self)"
    unfolding wire_level_def by simp_all
  from assms(4) have tbl: "underworld_types = []"
    unfolding set_listing_def assms(2) by simp
  have z: "fits_unsigned 2 (int 0)" by simp
  have chk: "check_eblb self = Inr ()"
    unfolding check_eblb_def using tiles_ne rect by (rule check_rows_ok)
  have row0: "py_index (tiles self) 0 = Inr (hd (tiles self))"
    using tiles_ne by (simp add: py_index_def hd_conv_nth)
  from header_round_trip [OF z z z n_cols n_rows] obtain header where
    header: "length header = 16"
      "pack_fields [pack_unsigned 2 (int 0), pack_unsigned 2 1, pack_unsigned 2 (int 0),
                    pack_unsigned 2 (int 0),
                    pack_unsigned 4 (int ?w), pack_unsigned 4 (int (length (tiles self)))]
         = Inr header"
      "unpack_header header = Inr (int 0, 1, int 0, int 0, int ?w, int (length (tiles self)))"
    by (elim exE conjE)
  from camera_round_trip [OF cam] obtain camera where
    camera: "length camera = 20"
      "pack_fields [pack_signed 4 (camera_x1 self), pack_signed 4 (camera_y1 self),
                    pack_signed 4 (camera_x2 self), pack_signed 4 (camera_y2 self),
                    pack_signed 4 0] = Inr camera"
    by (elim exE conjE)
  have w_pos: "0 < ?w" using row_ne by simp
  let ?tile_bytes = "map word_of_int (concat (tiles self)) :: byte list"
  note tl = tiles_round_trip [OF rect w_pos ids]
  have tlen: "int (length ?tile_bytes) = int ?w * int (length (tiles self))"
    using length_concat_rect [OF rect] by simp
  let ?b = "header @ UNDERWORLD_TYPES_TYP @ [0] @ [0, 0, 0] @ camera @ ?tile_bytes"
  have encoded: "ShantaeCurseEblb_bytes underworld_types self = Inr ?b"
    unfolding ShantaeCurseEblb_bytes_def tbl
    using header(2) by (simp add: chk row0 assms(2,3) padding_of_magic camera(2) tl(1))
  have m: "length UNDERWORLD_TYPES_TYP = 21" by (simp add: magic_bytes)
  have decoded: "from_eblb_file ?b
      \<in> {Some (Inl ShantaeCurseEblbParsingError), Some (Inl ShantaeCurseEblbBadData)}"
    unfolding from_eblb_file_def
    using tlen
    by (simp add: header(1,3) m padding_of_magic unpack_camera_def camera(1) read_tiles_def
        del: chunks.simps)
  from encoded decoded show ?thesis
    by (intro exI [of _ ?b] conjI)
qed

text \<open>
  C1. The Level with no object, no door, the camera rectangle (0, 0, 10, 10) and the tiles
  \<open>[[1,2],[3,4]]\<close> has a rectangular grid, fields within their formats, and the table
  that encoding derives, the empty one. The file format holds it: the decoder returns it
  from the 64-byte file with \<open>type_count = 0\<close>. Encoding it gives 65 bytes, with one more
  zero byte after the magic string, and decoding those bytes raises the bad-data error
  instead of returning the Level.
\<close>

theorem round_trip_fails_without_objects:
  "wire_level \<lparr>objects = [], doors = [], camera_x1 = 0, camera_y1 = 0, camera_x2 = 10,
               camera_y2 = 10, tiles = [[1, 2], [3, 4]]\<rparr> \<and>
   set_listing [] \<lparr>objects = [], doors = [], camera_x1 = 0, camera_y1 = 0, camera_x2 = 10,
                  camera_y2 = 10, tiles = [[1, 2], [3, 4]]\<rparr> \<and>
   from_eblb_file
     ([0,0, 1,0, 0,0, 0,0, 2,0,0,0, 2,0,0,0] @ UNDERWORLD_TYPES_TYP @ [0, 0, 0]
      @ [0,0,0,0, 0,0,0,0, 10,0,0,0, 10,0,0,0, 0,0,0,0] @ [1, 2, 3, 4])
     = Some (Inr \<lparr>objects = [], doors = [], camera_x1 = 0, camera_y1 = 0, camera_x2 = 10,
                  camera_y2 = 10, tiles = [[1, 2], [3, 4]]\<rparr>) \<and>
   ShantaeCurseEblb_bytes []
     \<lparr>objects = [], doors = [], camera_x1 = 0, camera_y1 = 0, camera_x2 = 10,
      camera_y2 = 10, tiles = [[1, 2], [3, 4]]\<rparr>
     = Inr ([0,0, 1,0, 0,0, 0,0, 2,0,0,0, 2,0,0,0] @ UNDERWORLD_TYPES_TYP @ [0] @ [0, 0, 0]
            @ [0,0,0,0, 0,0,0,0, 10,0,0,0, 10,0,0,0, 0,0,0,0] @ [1, 2, 3, 4]) \<and>
   from_eblb_file
     ([0,0, 1,0, 0,0, 0,0, 2,0,0,0, 2,0,0,0] @ UNDERWORLD_TYPES_TYP @ [0] @ [0, 0, 0]
      @ [0,0,0,0, 0,0,0,0, 10,0,0,0, 10,0,0,0, 0,0,0,0] @ [1, 2, 3, 4])
     = Some (Inl ShantaeCurseEblbBadData)"
  by code_simp

end
